theory Spec2Isabelle
  imports Complex_Main "HOL-Library.AList"
begin

unbundle bit_operations_syntax

section \<open>JavaScript values\<close>

text \<open>
  The handler of \<^verbatim>\<open>api/chat.js\<close> works on values that come out of \<^verbatim>\<open>JSON.parse\<close>:
  the request body and the decoded upstream body. A number is held as the rational its
  literal denotes (the rounding to a double is left out; zero and minus zero are both
  \<open>0\<close>), a string by its bytes in UTF-8, an object by its properties in insertion
  order, each name once. \<open>JUndefined\<close> is what reading a property that is not there
  gives. Of a string the handler only asks whether it is empty and whether it holds one
  of a few ASCII markers, which its bytes answer as its UTF-16 code units do.
\<close>

datatype jsval =
    JUndefined
  | JNull
  | JBool bool
  | JNum rat
  | JStr string
  | JArr "jsval list"
  | JObj "(string \<times> jsval) list"

text \<open>An exception, with the text of its \<^verbatim>\<open>message\<close> property.\<close>

datatype js_error = TypeError string | Rejection string

fun message :: "js_error \<Rightarrow> string" where
  "message (TypeError m) = m"
| "message (Rejection m) = m"

text \<open>\<^verbatim>\<open>!v\<close> is \<open>\<not> truthy v\<close>; \<^verbatim>\<open>a || b\<close> is \<open>js_or a b\<close>.\<close>

fun truthy :: "jsval \<Rightarrow> bool" where
  "truthy JUndefined = False"
| "truthy JNull = False"
| "truthy (JBool b) = b"
| "truthy (JNum n) = (n \<noteq> 0)"
| "truthy (JStr s) = (s \<noteq> [])"
| "truthy (JArr vs) = True"
| "truthy (JObj kvs) = True"

definition js_or :: "jsval \<Rightarrow> jsval \<Rightarrow> jsval" where
  "js_or a b = (if truthy a then a else b)"

definition nullish :: "jsval \<Rightarrow> bool" where
  "nullish v = (v = JUndefined \<or> v = JNull)"

text \<open>
  \<open>own v k\<close> is the property read \<^verbatim>\<open>v.k\<close> on a value that is neither
  \<^verbatim>\<open>undefined\<close> nor \<^verbatim>\<open>null\<close>, for a name \<open>k\<close> that no prototype defines
  (\<^verbatim>\<open>model\<close>, \<^verbatim>\<open>messages\<close>, \<^verbatim>\<open>content\<close>, \<^verbatim>\<open>choices\<close>, ...): an object gives its own
  property, every other value gives \<^verbatim>\<open>undefined\<close>.
\<close>

fun own :: "jsval \<Rightarrow> string \<Rightarrow> jsval" where
  "own (JObj kvs) k = (case map_of kvs k of None \<Rightarrow> JUndefined | Some v \<Rightarrow> v)"
| "own v k = JUndefined"

text \<open>Optional chaining \<^verbatim>\<open>v?.k\<close>.\<close>

definition opt :: "(jsval \<Rightarrow> jsval) \<Rightarrow> jsval \<Rightarrow> jsval" where
  "opt f v = (if nullish v then JUndefined else f v)"

text \<open>
  \<^verbatim>\<open>v[0]\<close> and \<^verbatim>\<open>v.length\<close> on a value that is neither undefined nor null. The
  handler reads \<^verbatim>\<open>[0]\<close> only to read a property of the result, and compares a length
  with zero only; for a string both go by its bytes here.
\<close>

fun index0 :: "jsval \<Rightarrow> jsval" where
  "index0 (JArr vs) = (case vs of [] \<Rightarrow> JUndefined | x # xs \<Rightarrow> x)"
| "index0 (JStr s) = (case s of [] \<Rightarrow> JUndefined | c # cs \<Rightarrow> JStr [c])"
| "index0 (JObj kvs) = own (JObj kvs) ''0''"
| "index0 v = JUndefined"

fun js_length :: "jsval \<Rightarrow> jsval" where
  "js_length (JArr vs) = JNum (of_nat (length vs))"
| "js_length (JStr s) = JNum (of_nat (length s))"
| "js_length (JObj kvs) = own (JObj kvs) ''length''"
| "js_length v = JUndefined"

text \<open>
  \<^verbatim>\<open>v > 0\<close>. On a number, a boolean, \<^verbatim>\<open>null\<close> and \<^verbatim>\<open>undefined\<close> the comparison is
  written out. On a string, an array or an object JavaScript first converts the value to
  a number by parsing its string form; that conversion belongs to the runtime and is the
  parameter \<open>rt\<close>.
\<close>

fun gt_zero :: "(jsval \<Rightarrow> bool) \<Rightarrow> jsval \<Rightarrow> bool" where
  "gt_zero rt (JNum n) = (0 < n)"
| "gt_zero rt (JBool b) = b"
| "gt_zero rt JUndefined = False"
| "gt_zero rt JNull = False"
| "gt_zero rt v = rt v"

text \<open>\<^verbatim>\<open>String.prototype.includes\<close>: \<open>js_includes x s\<close> holds when \<open>x\<close> occurs in \<open>s\<close>.\<close>

fun startsWith :: "string \<Rightarrow> string \<Rightarrow> bool" where
  "startsWith [] s = True"
| "startsWith (x # xs) [] = False"
| "startsWith (x # xs) (c # s) = (x = c \<and> startsWith xs s)"

fun js_includes :: "string \<Rightarrow> string \<Rightarrow> bool" where
  "js_includes x [] = (x = [])"
| "js_includes x (c # s) = (startsWith x (c # s) \<or> js_includes x s)"

text \<open>
  \<^verbatim>\<open>c?.includes(x)\<close>: nothing is called on \<^verbatim>\<open>undefined\<close> and \<^verbatim>\<open>null\<close>; a string
  searches for a substring, an array for an element; on any other value \<^verbatim>\<open>includes\<close>
  is not a function and the call throws.
\<close>

fun includes_opt :: "jsval \<Rightarrow> string \<Rightarrow> js_error + jsval" where
  "includes_opt JUndefined x = Inr JUndefined"
| "includes_opt JNull x = Inr JUndefined"
| "includes_opt (JStr s) x = Inr (JBool (js_includes x s))"
| "includes_opt (JArr vs) x = Inr (JBool (JStr x \<in> set vs))"
| "includes_opt v x = Inl (TypeError ''m.content?.includes is not a function'')"

section \<open>Text decoding and encoding of the runtime\<close>

text \<open>
  The relay loop passes every chunk through \<^verbatim>\<open>new TextDecoder()\<close> and writes the
  decoded string, which the response encodes as UTF-8 again. Both are the runtime's;
  they are modelled as the Encoding Standard defines the UTF-8 decoder (replacement
  error mode) and encoder. A byte is a \<open>char\<close>, a decoded string the list of its code
  points.
\<close>

type_synonym bytes = "char list"

record utf8_decoder =
  code_point :: nat
  bytes_seen :: nat
  bytes_needed :: nat
  lower_boundary :: nat
  upper_boundary :: nat

definition utf8_initial :: utf8_decoder where
  "utf8_initial = \<lparr>code_point = 0, bytes_seen = 0, bytes_needed = 0,
     lower_boundary = 0x80, upper_boundary = 0xBF\<rparr>"

text \<open>The decoder's step on a byte when no sequence is open (bytes needed is 0).\<close>

definition lead_byte :: "utf8_decoder \<Rightarrow> nat \<Rightarrow> utf8_decoder \<times> nat list" where
  "lead_byte d b =
     (if b \<le> 0x7F then (d, [b])
      else if 0xC2 \<le> b \<and> b \<le> 0xDF then
        (d\<lparr>bytes_needed := 1, code_point := b AND 0x1F\<rparr>, [])
      else if 0xE0 \<le> b \<and> b \<le> 0xEF then
        (d\<lparr>lower_boundary := (if b = 0xE0 then 0xA0 else lower_boundary d),
           upper_boundary := (if b = 0xED then 0x9F else upper_boundary d),
           bytes_needed := 2, code_point := b AND 0xF\<rparr>, [])
      else if 0xF0 \<le> b \<and> b \<le> 0xF4 then
        (d\<lparr>lower_boundary := (if b = 0xF0 then 0x90 else lower_boundary d),
           upper_boundary := (if b = 0xF4 then 0x8F else upper_boundary d),
           bytes_needed := 3, code_point := b AND 0x7\<rparr>, [])
      else (d, [0xFFFD]))"

text \<open>
  One byte through the decoder: the new state and the code points emitted. A byte out
  of the expected range ends the open sequence with U+FFFD and is read again as a
  first byte.
\<close>

definition utf8_handler :: "utf8_decoder \<Rightarrow> nat \<Rightarrow> utf8_decoder \<times> nat list" where
  "utf8_handler d b =
     (if bytes_needed d = 0 then lead_byte d b
      else if b < lower_boundary d \<or> upper_boundary d < b then
        (let (d', out) = lead_byte utf8_initial b in (d', 0xFFFD # out))
      else
        (let d1 = d\<lparr>lower_boundary := 0x80, upper_boundary := 0xBF,
                    code_point := push_bit 6 (code_point d) OR (b AND 0x3F),
                    bytes_seen := bytes_seen d + 1\<rparr>
         in if bytes_seen d1 \<noteq> bytes_needed d1 then (d1, [])
            else (d1\<lparr>code_point := 0, bytes_needed := 0, bytes_seen := 0\<rparr>,
                  [code_point d1])))"

fun utf8_decode :: "utf8_decoder \<Rightarrow> bytes \<Rightarrow> utf8_decoder \<times> nat list" where
  "utf8_decode d [] = (d, [])"
| "utf8_decode d (b # bs) =
     (let (d1, out1) = utf8_handler d (of_char b);
          (d2, out2) = utf8_decode d1 bs
      in (d2, out1 @ out2))"

text \<open>
  \<^verbatim>\<open>decoder.decode(value, { stream: true })\<close>: the open sequence is kept for the next
  call, and the first code point the decoder ever gives is dropped when it is the
  byte order mark U+FEFF.
\<close>

record text_decoder =
  decoder :: utf8_decoder
  BOM_seen :: bool

definition new_TextDecoder :: text_decoder where
  "new_TextDecoder = \<lparr>decoder = utf8_initial, BOM_seen = False\<rparr>"

definition decode_stream :: "text_decoder \<Rightarrow> bytes \<Rightarrow> text_decoder \<times> nat list" where
  "decode_stream td v =
     (let (d, out) = utf8_decode (decoder td) v
      in if out = [] \<or> BOM_seen td then (td\<lparr>decoder := d\<rparr>, out)
         else (\<lparr>decoder = d, BOM_seen = True\<rparr>, if hd out = 0xFEFF then tl out else out))"

text \<open>
  The UTF-8 encoder, used when a string is written to the response. A lone surrogate
  cannot be encoded and is written as U+FFFD.
\<close>

definition continuation :: "nat \<Rightarrow> nat \<Rightarrow> char" where
  "continuation shift cp = char_of (0x80 OR (drop_bit shift cp AND (0x3F::nat)))"

definition utf8_encode_cp :: "nat \<Rightarrow> bytes" where
  "utf8_encode_cp cp =
     (if cp \<le> 0x7F then [char_of cp]
      else if cp \<le> 0x7FF then [char_of (drop_bit 6 cp + 0xC0), continuation 0 cp]
      else if 0xD800 \<le> cp \<and> cp \<le> 0xDFFF then [CHR 0xEF, CHR 0xBF, CHR 0xBD]
      else if cp \<le> 0xFFFF then
        [char_of (drop_bit 12 cp + 0xE0), continuation 6 cp, continuation 0 cp]
      else
        [char_of (drop_bit 18 cp + 0xF0), continuation 12 cp, continuation 6 cp,
         continuation 0 cp])"

definition utf8_encode :: "nat list \<Rightarrow> bytes" where
  "utf8_encode cps = concat (map utf8_encode_cp cps)"

section \<open>The request, the response and the upstream API\<close>

text \<open>
  \<open>req_body\<close> is \<^verbatim>\<open>req.body\<close> as the platform parsed it (\<open>JUndefined\<close> when the request
  has none); \<open>FIREWORKS_API_KEY\<close> is the variable of \<^verbatim>\<open>process.env\<close>, \<open>None\<close> when unset.
\<close>

record request =
  req_method :: string
  req_body :: jsval

record environment =
  FIREWORKS_API_KEY :: "string option"

text \<open>
  The response object \<^verbatim>\<open>res\<close>: the status, the headers set with \<^verbatim>\<open>setHeader\<close>, the
  byte chunks written with \<^verbatim>\<open>res.write\<close> in order, the value sent with \<^verbatim>\<open>res.json\<close>,
  and whether the response has been ended. \<^verbatim>\<open>res.json\<close> sends its argument as the
  body and ends the response; \<^verbatim>\<open>res.write\<close> takes a string and writes its UTF-8
  encoding. The headers are those the handler sets itself.
\<close>

record response =
  statusCode :: nat
  headers :: "(string \<times> string) list"
  written :: "bytes list"
  jsonBody :: "jsval option"
  ended :: bool

definition new_response :: response where
  "new_response = \<lparr>statusCode = 200, headers = [], written = [], jsonBody = None, ended = False\<rparr>"

definition res_setHeader :: "string \<Rightarrow> string \<Rightarrow> response \<Rightarrow> response" where
  "res_setHeader name v res = res\<lparr>headers := AList.update name v (headers res)\<rparr>"

definition res_status :: "nat \<Rightarrow> response \<Rightarrow> response" where
  "res_status code res = res\<lparr>statusCode := code\<rparr>"

definition res_json :: "jsval \<Rightarrow> response \<Rightarrow> response" where
  "res_json v res = res\<lparr>jsonBody := Some v, ended := True\<rparr>"

definition res_write :: "nat list \<Rightarrow> response \<Rightarrow> response" where
  "res_write str res = res\<lparr>written := written res @ [utf8_encode str]\<rparr>"

definition res_end :: "response \<Rightarrow> response" where
  "res_end res = res\<lparr>ended := True\<rparr>"

text \<open>
  What \<^verbatim>\<open>fetch\<close> is called with, and what the upstream API answers. The answer gives
  the status, what \<^verbatim>\<open>response.text()\<close> and \<^verbatim>\<open>response.json()\<close> resolve to (or reject
  with), and \<^verbatim>\<open>response.body\<close>: \<open>None\<close> when there is none, else the chunks its reader
  gives, followed by the end of the data or by a read that fails.
\<close>

record fetch_request =
  url :: string
  fetch_method :: string
  fetch_headers :: "(string \<times> string) list"
  fetch_body :: jsval

datatype read_end = EndOfData | ReadFails js_error

record upstream_response =
  up_status :: nat
  up_text :: "js_error + string"
  up_json :: "js_error + jsval"
  up_body :: "(bytes list \<times> read_end) option"

datatype fetch_outcome = Rejected js_error | Resolved upstream_response

definition ok :: "upstream_response \<Rightarrow> bool" where
  "ok r = (200 \<le> up_status r \<and> up_status r \<le> 299)"

section \<open>The handler of api/chat.js\<close>

subsection \<open>Chain-of-Draft detection and the request log (lines 41 to 57)\<close>

definition reflection_markers :: "string list" where
  "reflection_markers =
     [''EMBEDDED REFLECTION'', ''TOKEN-BASED REFLECTION'', ''REFLECTION AFTER'',
      ''Chain of Draft'', ''~150 tokens'', ''embed reflections immediately'']"

text \<open>The chain of \<^verbatim>\<open>||\<close> over the markers, on the content \<open>c\<close> of one message.\<close>

fun any_marker :: "jsval \<Rightarrow> string list \<Rightarrow> js_error + bool" where
  "any_marker c [] = Inr False"
| "any_marker c (x # xs) =
     (case includes_opt c x of
        Inl e \<Rightarrow> Inl e
      | Inr v \<Rightarrow> if truthy v then Inr True else any_marker c xs)"

text \<open>The callback of \<^verbatim>\<open>messages.some\<close>: reading \<^verbatim>\<open>m.content\<close> throws on a null entry.\<close>

definition mentions_marker :: "jsval \<Rightarrow> js_error + bool" where
  "mentions_marker m =
     (if nullish m then Inl (TypeError ''Cannot read properties of null (reading content)'')
      else any_marker (own m ''content'') reflection_markers)"

text \<open>\<^verbatim>\<open>Array.prototype.some\<close> stops at the first entry the callback accepts.\<close>

fun some_message :: "jsval list \<Rightarrow> js_error + bool" where
  "some_message [] = Inr False"
| "some_message (m # ms) =
     (case mentions_marker m of
        Inl e \<Rightarrow> Inl e
      | Inr found \<Rightarrow> if found then Inr True else some_message ms)"

definition hasAdvancedCoD :: "jsval \<Rightarrow> js_error + bool" where
  "hasAdvancedCoD messages =
     (case messages of
        JArr ms \<Rightarrow> some_message ms
      | _ \<Rightarrow> Inl (TypeError ''messages.some is not a function''))"

text \<open>
  The log entry's \<^verbatim>\<open>messages[messages.length - 1]?.content?.substring(0, 100) + "..."\<close>,
  on the entries of the array: \<^verbatim>\<open>substring\<close> exists on a string only.
\<close>

definition lastMessagePreview :: "jsval list \<Rightarrow> js_error + string" where
  "lastMessagePreview ms =
     (case opt (\<lambda>m. own m ''content'') (if ms = [] then JUndefined else last ms) of
        JUndefined \<Rightarrow> Inr ''undefined...''
      | JNull \<Rightarrow> Inr ''undefined...''
      | JStr s \<Rightarrow> Inr (take 100 s @ ''...'')
      | _ \<Rightarrow> Inl (TypeError ''messages[(messages.length - 1)]?.content?.substring is not a function''))"

subsection \<open>The request to the upstream API (lines 59 to 83)\<close>

definition toolsEnabled :: "(jsval \<Rightarrow> bool) \<Rightarrow> jsval \<Rightarrow> bool" where
  "toolsEnabled rt tools = (truthy tools \<and> gt_zero rt (js_length tools))"

text \<open>\<open>b\<close> is the request body, whose properties line 29 takes apart.\<close>

definition fireworksPayload :: "(jsval \<Rightarrow> bool) \<Rightarrow> jsval \<Rightarrow> jsval" where
  "fireworksPayload rt b =
     JObj ([(''model'', own b ''model''),
            (''messages'', own b ''messages''),
            (''temperature'', js_or (own b ''temperature'') (JNum 0.6)),
            (''top_p'', js_or (own b ''top_p'') (JNum 1)),
            (''top_k'', js_or (own b ''top_k'') (JNum 40)),
            (''max_tokens'', js_or (own b ''max_tokens'') (JNum 8192)),
            (''presence_penalty'', js_or (own b ''presence_penalty'') (JNum 0)),
            (''frequency_penalty'', js_or (own b ''frequency_penalty'') (JNum 0)),
            (''stream'', js_or (own b ''stream'') (JBool False))]
           @ (if toolsEnabled rt (own b ''tools'')
              then (''tools'', own b ''tools'')
                   # (if truthy (own b ''tool_choice'')
                      then [(''tool_choice'', own b ''tool_choice'')] else [])
              else []))"

definition fireworksHeaders :: "string \<Rightarrow> bool \<Rightarrow> (string \<times> string) list" where
  "fireworksHeaders apiKey streaming =
     [(''Authorization'', ''Bearer '' @ apiKey), (''Content-Type'', ''application/json'')]
     @ (if streaming then [(''Accept'', ''text/event-stream'')] else [])"

definition fireworksRequest :: "(jsval \<Rightarrow> bool) \<Rightarrow> string \<Rightarrow> jsval \<Rightarrow> fetch_request" where
  "fireworksRequest rt apiKey b =
     \<lparr>url = ''https://api.fireworks.ai/inference/v1/chat/completions'',
      fetch_method = ''POST'',
      fetch_headers = fireworksHeaders apiKey (truthy (own b ''stream'')),
      fetch_body = fireworksPayload rt b\<rparr>"

subsection \<open>Relaying the answer (lines 85 to 192)\<close>

text \<open>The block under \<^verbatim>\<open>if (!response.ok)\<close>, the same in both branches.\<close>

definition api_request_failed :: "upstream_response \<Rightarrow> response \<Rightarrow> js_error + response" where
  "api_request_failed r res =
     (case up_text r of
        Inl e \<Rightarrow> Inl e
      | Inr errorText \<Rightarrow>
          Inr (res_json (JObj [(''error'', JStr ''API request failed''),
                               (''message'', JStr errorText)])
                (res_status (up_status r) res)))"

text \<open>
  The loop of lines 124 to 144 over the chunks the reader gives: decode the chunk, write
  the decoded string. (The token count and the reflection log of the loop go to the
  console only.)
\<close>

fun relay :: "text_decoder \<Rightarrow> bytes list \<Rightarrow> response \<Rightarrow> response" where
  "relay td [] res = res"
| "relay td (v # vs) res =
     (let (td', chunk) = decode_stream td v in relay td' vs (res_write chunk res))"

definition streaming_interrupted :: "nat list" where
  \<open>streaming_interrupted =
     map of_char (''data: {"error": "Streaming interrupted"}'' @ [CHR 0x0A, CHR 0x0A])\<close>

text \<open>The headers set for streaming, lines 105 to 110, in that order.\<close>

definition event_stream :: "response \<Rightarrow> response" where
  "event_stream res =
     res_setHeader ''Access-Control-Allow-Headers'' ''Content-Type''
       (res_setHeader ''Access-Control-Allow-Methods'' ''GET, POST, OPTIONS''
         (res_setHeader ''Access-Control-Allow-Origin'' ''*''
           (res_setHeader ''Connection'' ''keep-alive''
             (res_setHeader ''Cache-Control'' ''no-cache''
               (res_setHeader ''Content-Type'' ''text/event-stream'' res)))))"

definition streaming :: "upstream_response \<Rightarrow> response \<Rightarrow> js_error + response" where
  "streaming r res =
     (if \<not> ok r then api_request_failed r res
      else
        let res1 = event_stream res
        in case up_body r of
             None \<Rightarrow>
               Inr (res_json (JObj [(''error'', JStr ''No response body from API'')])
                     (res_status 500 res1))
           | Some (chunks, ending) \<Rightarrow>
               let res2 = relay new_TextDecoder chunks res1
               in Inr (case ending of
                         EndOfData \<Rightarrow> res_end res2
                       | ReadFails e \<Rightarrow> res_end (res_write streaming_interrupted res2)))"

text \<open>
  The response log of lines 172 to 189. \<open>responseContent\<close> is
  \<^verbatim>\<open>data.choices?.[0]?.message?.content\<close>, which throws when \<^verbatim>\<open>data\<close> is null;
  \<^verbatim>\<open>responseContent.match\<close> exists on a string only.
\<close>

definition responseContent :: "jsval \<Rightarrow> js_error + jsval" where
  "responseContent d =
     (if nullish d then Inl (TypeError ''Cannot read properties of null (reading choices)'')
      else Inr (opt (\<lambda>m. own m ''content'')
                 (opt (\<lambda>c. own c ''message'') (opt index0 (own d ''choices'')))))"

definition responseAnalysis :: "bool \<Rightarrow> jsval \<Rightarrow> js_error + unit" where
  "responseAnalysis cod d =
     (if \<not> cod then Inr ()
      else case responseContent d of
             Inl e \<Rightarrow> Inl e
           | Inr c \<Rightarrow>
               if \<not> truthy c then Inr ()
               else (case c of
                       JStr s \<Rightarrow> Inr ()
                     | _ \<Rightarrow> Inl (TypeError ''responseContent.match is not a function'')))"

definition non_streaming :: "bool \<Rightarrow> upstream_response \<Rightarrow> response \<Rightarrow> js_error + response" where
  "non_streaming cod r res =
     (if \<not> ok r then api_request_failed r res
      else case up_json r of
             Inl e \<Rightarrow> Inl e
           | Inr d \<Rightarrow>
               (case responseAnalysis cod d of
                  Inl e \<Rightarrow> Inl e
                | Inr u \<Rightarrow> Inr (res_json d (res_status 200 res))))"

subsection \<open>The handler\<close>

text \<open>
  The body of the \<^verbatim>\<open>try\<close> of lines 17 to 193: what it returns or throws, and the calls
  of \<^verbatim>\<open>fetch\<close> it made. Every statement that can throw comes before the first change the
  block makes to \<^verbatim>\<open>res\<close>, so the \<^verbatim>\<open>catch\<close> of line 194 finds \<^verbatim>\<open>res\<close> as the block
  found it.
\<close>

definition try_block ::
  "(jsval \<Rightarrow> bool) \<Rightarrow> environment \<Rightarrow> (fetch_request \<Rightarrow> fetch_outcome) \<Rightarrow> request \<Rightarrow> response
     \<Rightarrow> (js_error + response) \<times> fetch_request list" where
  "try_block rt env fetch req res =
     (let apiKey = (case FIREWORKS_API_KEY env of None \<Rightarrow> [] | Some k \<Rightarrow> k) in
      if apiKey = [] then
        (Inr (res_json (JObj [(''error'', JStr ''Server configuration error''),
                (''message'', JStr ''API key not configured. Please check server environment variables.'')])
               (res_status 500 res)), [])
      else if nullish (req_body req) then
        (Inl (TypeError ''Cannot destructure property model of req.body as it is undefined.''), [])
      else
        let b = req_body req in
        if \<not> truthy (own b ''model'') \<or> \<not> truthy (own b ''messages'') then
          (Inr (res_json (JObj [(''error'', JStr ''Bad request''),
                  (''message'', JStr ''Missing required fields: model and messages'')])
                 (res_status 400 res)), [])
        else
          case hasAdvancedCoD (own b ''messages'') of
            Inl e \<Rightarrow> (Inl e, [])
          | Inr cod \<Rightarrow>
              (case lastMessagePreview (case own b ''messages'' of JArr ms \<Rightarrow> ms | _ \<Rightarrow> []) of
                 Inl e \<Rightarrow> (Inl e, [])
               | Inr preview \<Rightarrow>
                   let fr = fireworksRequest rt apiKey b in
                   (case fetch fr of
                      Rejected e \<Rightarrow> (Inl e, [fr])
                    | Resolved r \<Rightarrow>
                        (if truthy (own b ''stream'') then streaming r res
                         else non_streaming cod r res, [fr]))))"

text \<open>What a call of the handler leaves: the response, and the calls of \<^verbatim>\<open>fetch\<close> made.\<close>

record outcome =
  response :: response
  fetched :: "fetch_request list"

text \<open>The headers set for every request, lines 3 to 5.\<close>

definition cors :: "response \<Rightarrow> response" where
  "cors res =
     res_setHeader ''Access-Control-Allow-Headers'' ''Content-Type, Authorization''
       (res_setHeader ''Access-Control-Allow-Methods'' ''GET, POST, OPTIONS''
         (res_setHeader ''Access-Control-Allow-Origin'' ''*'' res))"

definition module_exports ::
  "(jsval \<Rightarrow> bool) \<Rightarrow> environment \<Rightarrow> (fetch_request \<Rightarrow> fetch_outcome) \<Rightarrow> request \<Rightarrow> outcome" where
  "module_exports rt env fetch req =
     (let res = cors new_response in
      if req_method req = ''OPTIONS'' then
        \<lparr>response = res_end (res_status 200 res), fetched = []\<rparr>
      else if req_method req \<noteq> ''POST'' then
        \<lparr>response = res_json (JObj [(''error'', JStr ''Method not allowed'')]) (res_status 405 res),
         fetched = []\<rparr>
      else
        case try_block rt env fetch req res of
          (Inr res', calls) \<Rightarrow> \<lparr>response = res', fetched = calls\<rparr>
        | (Inl error, calls) \<Rightarrow>
            \<lparr>response = res_json (JObj [(''error'', JStr ''Internal server error''),
                                        (''message'', JStr (message error))])
                          (res_status 500 res),
             fetched = calls\<rparr>)"

section \<open>Values used in the statements\<close>

text \<open>
  The headers of lines 3 to 5 as the response holds them, and the Unicode scalar values:
  the code points a well-formed string is made of (every code point up to U+10FFFF but
  the surrogates).
\<close>

definition cors_headers :: "(string \<times> string) list" where
  "cors_headers =
     [(''Access-Control-Allow-Origin'', ''*''),
      (''Access-Control-Allow-Methods'', ''GET, POST, OPTIONS''),
      (''Access-Control-Allow-Headers'', ''Content-Type, Authorization'')]"

definition scalar_value :: "nat \<Rightarrow> bool" where
  "scalar_value cp = (cp < 0xD800 \<or> (0xE000 \<le> cp \<and> cp \<le> 0x10FFFF))"

text \<open>A message as a chat request is meant to hold it: an object whose content is a string.\<close>

definition message_object :: "jsval \<Rightarrow> bool" where
  "message_object m =
     (case m of
        JObj kvs \<Rightarrow> (case own m ''content'' of JStr c \<Rightarrow> True | _ \<Rightarrow> False)
      | _ \<Rightarrow> False)"

subsection \<open>Example requests and example answers of the upstream API\<close>

text \<open>
  No example request has a \<^verbatim>\<open>tools\<close> property, so the handler never asks the runtime
  to compare a string with zero; \<open>example_rt\<close> stands for that comparison.
\<close>

definition example_rt :: "jsval \<Rightarrow> bool" where
  "example_rt v = False"

definition configured :: environment where
  "configured = \<lparr>FIREWORKS_API_KEY = Some ''fw-key''\<rparr>"

definition unconfigured :: environment where
  "unconfigured = \<lparr>FIREWORKS_API_KEY = None\<rparr>"

definition bare_request :: "string \<Rightarrow> jsval \<Rightarrow> request" where
  "bare_request m b = \<lparr>req_method = m, req_body = b\<rparr>"

text \<open>A chat request with one user message of content \<open>c\<close>, streaming or not.\<close>

definition chat_request :: "string \<Rightarrow> bool \<Rightarrow> request" where
  "chat_request c s =
     \<lparr>req_method = ''POST'',
      req_body = JObj [(''model'', JStr ''llama''),
                       (''messages'', JArr [JObj [(''role'', JStr ''user''), (''content'', JStr c)]]),
                       (''stream'', JBool s)]\<rparr>"

text \<open>A chat request whose one message has its content as a list of parts.\<close>

definition parts_request :: request where
  "parts_request =
     \<lparr>req_method = ''POST'',
      req_body = JObj [(''model'', JStr ''llama''),
                       (''messages'', JArr [JObj [(''role'', JStr ''user''),
                          (''content'', JArr [JObj [(''type'', JStr ''text''),
                                                    (''text'', JStr ''2+2?'')]])]]),
                       (''stream'', JBool False)]\<rparr>"

text \<open>A request that gives five of the optional fields as zero and leaves two out.\<close>

definition zeros_request :: request where
  "zeros_request =
     \<lparr>req_method = ''POST'',
      req_body = JObj [(''model'', JStr ''llama''),
                       (''messages'', JArr [JObj [(''role'', JStr ''user''), (''content'', JStr ''2+2?'')]]),
                       (''temperature'', JNum 0), (''top_p'', JNum 0), (''max_tokens'', JNum 0),
                       (''presence_penalty'', JNum 0), (''stream'', JNum 0)]\<rparr>"

text \<open>A streaming request that gives every optional field a value of its own.\<close>

definition tuned_request :: request where
  "tuned_request =
     \<lparr>req_method = ''POST'',
      req_body = JObj [(''model'', JStr ''llama''),
                       (''messages'', JArr [JObj [(''role'', JStr ''user''), (''content'', JStr ''2+2?'')]]),
                       (''temperature'', JNum 0.2), (''top_p'', JNum 0.9), (''top_k'', JNum 10),
                       (''max_tokens'', JNum 256), (''presence_penalty'', JNum 0.5),
                       (''frequency_penalty'', JNum 0.25), (''stream'', JBool True)]\<rparr>"

text \<open>An upstream API that gives the same answer to every call.\<close>

definition answers :: "upstream_response \<Rightarrow> fetch_request \<Rightarrow> fetch_outcome" where
  "answers r fr = Resolved r"

definition rate_limited :: upstream_response where
  "rate_limited =
     \<lparr>up_status = 429, up_text = Inr ''rate limited'',
      up_json = Inl (Rejection ''Unexpected token r in JSON at position 0''),
      up_body = Some ([''rate limited''], EndOfData)\<rparr>"

definition json_answer :: "string \<Rightarrow> jsval \<Rightarrow> upstream_response" where
  "json_answer src d =
     \<lparr>up_status = 200, up_text = Inr src, up_json = Inr d, up_body = Some ([src], EndOfData)\<rparr>"

definition stream_answer :: "bytes list \<Rightarrow> read_end \<Rightarrow> upstream_response" where
  "stream_answer cs e =
     \<lparr>up_status = 200, up_text = Inr (concat cs),
      up_json = Inl (Rejection ''Unexpected token d in JSON at position 0''),
      up_body = Some (cs, e)\<rparr>"

definition sse_frame :: "string \<Rightarrow> bytes" where
  "sse_frame payload = ''data: '' @ payload @ [CHR 0x0A, CHR 0x0A]"

definition completion_answer :: upstream_response where
  \<open>completion_answer =
     json_answer ''{"choices":[{"message":{"role":"assistant","content":"4"}}]}''
       (JObj [(''choices'', JArr [JObj [(''message'',
          JObj [(''role'', JStr ''assistant''), (''content'', JStr ''4'')])]])])\<close>

text \<open>A completion whose content is a list of parts, not a string.\<close>

definition parts_answer :: upstream_response where
  \<open>parts_answer =
     json_answer ''{"choices":[{"message":{"role":"assistant","content":[{"type":"text","text":"4"}]}}]}''
       (JObj [(''choices'', JArr [JObj [(''message'',
          JObj [(''role'', JStr ''assistant''),
                (''content'', JArr [JObj [(''type'', JStr ''text''), (''text'', JStr ''4'')]])])]])])\<close>

text \<open>
  Three strings for a stream: \<^verbatim>\<open>Hi\<close>, then U+00E9 and U+20AC, then U+1F600. Their
  encodings take one, two, three and four bytes a code point.
\<close>

definition greeting_texts :: "nat list list" where
  "greeting_texts = [[0x48, 0x69], [0xE9, 0x20AC], [0x1F600]]"

section \<open>The paths of the handler\<close>

lemma cors_new_response:
  "cors new_response =
     \<lparr>statusCode = 200, headers = cors_headers, written = [], jsonBody = None, ended = False\<rparr>"
  by (simp add: cors_def new_response_def res_setHeader_def cors_headers_def)

lemma handler_POST:
  assumes "req_method req = ''POST''"
  shows "module_exports rt env fetch req =
     (case try_block rt env fetch req (cors new_response) of
          (Inr res', calls) \<Rightarrow> \<lparr>response = res', fetched = calls\<rparr>
        | (Inl error, calls) \<Rightarrow>
            \<lparr>response = res_json (JObj [(''error'', JStr ''Internal server error''),
                                        (''message'', JStr (message error))])
                          (res_status 500 (cors new_response)),
             fetched = calls\<rparr>)"
  using assms by (simp add: module_exports_def Let_def)

text \<open>
  A call of \<^verbatim>\<open>fetch\<close> is made only by a POST request that passed every check, and it is
  the only one; what the \<^verbatim>\<open>try\<close> block gives then is decided by the answer.
\<close>

lemma try_block_fetched:
  assumes "fr \<in> set (snd (try_block rt env fetch req res))"
  shows "\<exists>apiKey cod.
           FIREWORKS_API_KEY env = Some apiKey \<and> apiKey \<noteq> [] \<and> \<not> nullish (req_body req)
         \<and> truthy (own (req_body req) ''model'') \<and> truthy (own (req_body req) ''messages'')
         \<and> hasAdvancedCoD (own (req_body req) ''messages'') = Inr cod
         \<and> fr = fireworksRequest rt apiKey (req_body req)
         \<and> try_block rt env fetch req res =
             (case fetch fr of
                Rejected e \<Rightarrow> Inl e
              | Resolved r \<Rightarrow> if truthy (own (req_body req) ''stream'') then streaming r res
                              else non_streaming cod r res, [fr])"
proof (cases "FIREWORKS_API_KEY env")
  case None
  with assms show ?thesis by (simp add: try_block_def)
next
  case (Some apiKey)
  have key: "apiKey \<noteq> []"
    using assms Some by (auto simp add: try_block_def)
  have body: "\<not> nullish (req_body req)"
    using assms Some key by (auto simp add: try_block_def)
  have model: "truthy (own (req_body req) ''model'')"
    using assms Some key body by (auto simp add: try_block_def Let_def split: if_splits)
  have messages: "truthy (own (req_body req) ''messages'')"
    using assms Some key body by (auto simp add: try_block_def Let_def split: if_splits)
  note pre = Some key body model messages
  show ?thesis
  proof (cases "hasAdvancedCoD (own (req_body req) ''messages'')")
    case (Inl e)
    with assms pre show ?thesis by (simp add: try_block_def Let_def)
  next
    case cod: (Inr cod)
    show ?thesis
    proof (cases "lastMessagePreview (case own (req_body req) ''messages'' of JArr ms \<Rightarrow> ms | _ \<Rightarrow> [])")
      case (Inl e)
      with assms pre cod show ?thesis by (simp add: try_block_def Let_def)
    next
      case (Inr preview)
      with assms pre cod show ?thesis
        by (cases "fetch (fireworksRequest rt apiKey (req_body req))")
          (simp_all add: try_block_def Let_def)
    qed
  qed
qed

lemma handler_fetched:
  assumes "fr \<in> set (fetched (module_exports rt env fetch req))"
  shows "\<exists>apiKey cod.
           req_method req = ''POST''
         \<and> FIREWORKS_API_KEY env = Some apiKey \<and> apiKey \<noteq> [] \<and> \<not> nullish (req_body req)
         \<and> truthy (own (req_body req) ''model'') \<and> truthy (own (req_body req) ''messages'')
         \<and> hasAdvancedCoD (own (req_body req) ''messages'') = Inr cod
         \<and> fr = fireworksRequest rt apiKey (req_body req)
         \<and> try_block rt env fetch req (cors new_response) =
             (case fetch fr of
                Rejected e \<Rightarrow> Inl e
              | Resolved r \<Rightarrow>
                  if truthy (own (req_body req) ''stream'') then streaming r (cors new_response)
                  else non_streaming cod r (cors new_response), [fr])"
proof -
  have post: "req_method req = ''POST''"
    using assms by (auto simp add: module_exports_def Let_def split: if_splits)
  then have "fetched (module_exports rt env fetch req)
               = snd (try_block rt env fetch req (cors new_response))"
    by (simp add: module_exports_def Let_def split: prod.splits sum.splits)
  with assms have "fr \<in> set (snd (try_block rt env fetch req (cors new_response)))"
    by simp
  from try_block_fetched [OF this] post show ?thesis by blast
qed

text \<open>
  The other way round: a POST request with a credential, a model and an array of messages
  whose log raises nothing reaches the call of \<^verbatim>\<open>fetch\<close>, whatever the answer is.
\<close>

lemma handler_calls_upstream:
  assumes "req_method req = ''POST''"
    and "FIREWORKS_API_KEY env = Some apiKey" and "apiKey \<noteq> []"
    and "truthy (own (req_body req) ''model'')"
    and "own (req_body req) ''messages'' = JArr ms"
    and "some_message ms = Inr cod" and "lastMessagePreview ms = Inr preview"
  shows "fetched (module_exports rt env fetch req) = [fireworksRequest rt apiKey (req_body req)]"
proof -
  have "\<not> nullish (req_body req)"
    using assms(5) by (auto simp add: nullish_def)
  then have "snd (try_block rt env fetch req (cors new_response))
               = [fireworksRequest rt apiKey (req_body req)]"
    using assms(2-7)
    by (cases "fetch (fireworksRequest rt apiKey (req_body req))")
      (simp_all add: try_block_def Let_def hasAdvancedCoD_def)
  then show ?thesis
    by (auto simp add: handler_POST [OF assms(1)] split: prod.splits sum.splits)
qed

text \<open>
  In particular every request whose messages are an array of message objects reaches it.
\<close>

lemma any_marker_string: "\<exists>found. any_marker (JStr c) xs = Inr found"
  by (induction xs) auto

lemma mentions_marker_message:
  assumes "message_object m"
  shows "\<exists>found. mentions_marker m = Inr found"
proof -
  from assms obtain kvs c where "m = JObj kvs" and "own m ''content'' = JStr c"
    by (auto simp add: message_object_def split: jsval.splits)
  then show ?thesis
    using any_marker_string [of c reflection_markers]
    by (simp add: mentions_marker_def nullish_def)
qed

lemma some_message_objects:
  assumes "list_all message_object ms"
  shows "\<exists>found. some_message ms = Inr found"
  using assms
proof (induction ms)
  case Nil
  then show ?case by auto
next
  case (Cons m ms)
  then obtain found where "mentions_marker m = Inr found"
    using mentions_marker_message [of m] by auto
  with Cons show ?case by (cases found) auto
qed

lemma lastMessagePreview_objects:
  assumes "list_all message_object ms"
  shows "\<exists>preview. lastMessagePreview ms = Inr preview"
proof (cases "ms = []")
  case True
  then show ?thesis by (simp add: lastMessagePreview_def opt_def nullish_def)
next
  case False
  with assms have "message_object (last ms)"
    by (simp add: list_all_iff)
  then obtain kvs c where "last ms = JObj kvs" and "own (last ms) ''content'' = JStr c"
    by (auto simp add: message_object_def split: jsval.splits)
  with False show ?thesis
    by (simp add: lastMessagePreview_def opt_def nullish_def)
qed

lemma message_objects_reach_upstream:
  assumes "req_method req = ''POST''"
    and "FIREWORKS_API_KEY env = Some apiKey" and "apiKey \<noteq> []"
    and "truthy (own (req_body req) ''model'')"
    and "own (req_body req) ''messages'' = JArr ms" and "list_all message_object ms"
  shows "fetched (module_exports rt env fetch req) = [fireworksRequest rt apiKey (req_body req)]"
proof -
  obtain found preview
    where "some_message ms = Inr found" and "lastMessagePreview ms = Inr preview"
    using some_message_objects [OF assms(6)] lastMessagePreview_objects [OF assms(6)] by blast
  with assms(1-5) show ?thesis
    by (rule handler_calls_upstream)
qed

lemma chat_request_fetched:
  "fetched (module_exports rt configured fetch (chat_request c s))
     = [fireworksRequest rt ''fw-key'' (req_body (chat_request c s))]"
  by (rule message_objects_reach_upstream
        [where ms = "[JObj [(''role'', JStr ''user''), (''content'', JStr c)]]"])
    (simp_all add: chat_request_def configured_def message_object_def)

section \<open>Requests refused before any upstream call\<close>

text \<open>
  Claim C8. For every request whose method is neither POST nor OPTIONS, the handler
  responds with status 405 and the body \<^verbatim>\<open>{"error":"Method not allowed"}\<close>, and makes no
  upstream call.
\<close>

theorem method_not_allowed:
  assumes "req_method req \<noteq> ''POST''" and "req_method req \<noteq> ''OPTIONS''"
  shows "module_exports rt env fetch req =
    \<lparr>response = \<lparr>statusCode = 405, headers = cors_headers, written = [],
                  jsonBody = Some (JObj [(''error'', JStr ''Method not allowed'')]), ended = True\<rparr>,
     fetched = []\<rparr>"
  using assms by (simp add: module_exports_def cors_new_response res_json_def res_status_def)

text \<open>Claim C8 at a DELETE request.\<close>

theorem method_not_allowed_witness:
  "req_method (bare_request ''DELETE'' JUndefined) \<noteq> ''POST''
   \<and> req_method (bare_request ''DELETE'' JUndefined) \<noteq> ''OPTIONS''
   \<and> module_exports example_rt configured (answers rate_limited) (bare_request ''DELETE'' JUndefined) =
    \<lparr>response = \<lparr>statusCode = 405, headers = cors_headers, written = [],
                  jsonBody = Some (JObj [(''error'', JStr ''Method not allowed'')]), ended = True\<rparr>,
     fetched = []\<rparr>"
proof -
  have h1: "req_method (bare_request ''DELETE'' JUndefined) \<noteq> ''POST''"
    and h2: "req_method (bare_request ''DELETE'' JUndefined) \<noteq> ''OPTIONS''"
    by (simp_all add: bare_request_def)
  show ?thesis using h1 h2 method_not_allowed [OF h1 h2] by simp
qed

text \<open>
  Claim C10. The credential check comes before the validation of the fields: every POST
  request made while \<^verbatim>\<open>FIREWORKS_API_KEY\<close> is absent gets status 500 with the
  configuration error body, whatever its body is (also when model or messages are
  missing), so never a 400; and no upstream call is made.
\<close>

theorem credential_checked_first:
  assumes "req_method req = ''POST''" and "FIREWORKS_API_KEY env = None"
  shows "module_exports rt env fetch req =
    \<lparr>response = \<lparr>statusCode = 500, headers = cors_headers, written = [],
                  jsonBody = Some (JObj [(''error'', JStr ''Server configuration error''),
                    (''message'', JStr ''API key not configured. Please check server environment variables.'')]),
                  ended = True\<rparr>,
     fetched = []\<rparr>"
  using assms
  by (simp add: handler_POST try_block_def cors_new_response res_json_def res_status_def)

text \<open>Claim C10 at a POST request whose body has neither model nor messages.\<close>

theorem credential_checked_first_witness:
  "req_method (bare_request ''POST'' (JObj [])) = ''POST''
   \<and> FIREWORKS_API_KEY unconfigured = None
   \<and> own (req_body (bare_request ''POST'' (JObj []))) ''model'' = JUndefined
   \<and> own (req_body (bare_request ''POST'' (JObj []))) ''messages'' = JUndefined
   \<and> module_exports example_rt unconfigured (answers rate_limited) (bare_request ''POST'' (JObj [])) =
    \<lparr>response = \<lparr>statusCode = 500, headers = cors_headers, written = [],
                  jsonBody = Some (JObj [(''error'', JStr ''Server configuration error''),
                    (''message'', JStr ''API key not configured. Please check server environment variables.'')]),
                  ended = True\<rparr>,
     fetched = []\<rparr>"
proof -
  have h1: "req_method (bare_request ''POST'' (JObj [])) = ''POST''"
    by (simp add: bare_request_def)
  have h2: "FIREWORKS_API_KEY unconfigured = None"
    by (simp add: unconfigured_def)
  show ?thesis
    using h1 h2 credential_checked_first [OF h1 h2] by (simp add: bare_request_def)
qed

text \<open>
  Claim C6 says that a body lacking a non-empty model or a non-empty messages gets
  status 400 and no upstream call. The check of line 32 is \<^verbatim>\<open>!model || !messages\<close>, and
  an empty array is not falsy: a request with \<^verbatim>\<open>messages: []\<close> passes it and is sent
  upstream.
\<close>

theorem empty_messages_counterexample:
  "req_method (bare_request ''POST'' (JObj [(''model'', JStr ''llama''), (''messages'', JArr [])])) = ''POST''
   \<and> FIREWORKS_API_KEY configured = Some ''fw-key''
   \<and> own (req_body (bare_request ''POST'' (JObj [(''model'', JStr ''llama''), (''messages'', JArr [])])))
        ''messages'' = JArr []
   \<and> statusCode (response (module_exports example_rt configured (answers completion_answer)
        (bare_request ''POST'' (JObj [(''model'', JStr ''llama''), (''messages'', JArr [])])))) = 200
   \<and> fetched (module_exports example_rt configured (answers completion_answer)
        (bare_request ''POST'' (JObj [(''model'', JStr ''llama''), (''messages'', JArr [])])))
      = [fireworksRequest example_rt ''fw-key'' (JObj [(''model'', JStr ''llama''), (''messages'', JArr [])])]"
  by code_simp

text \<open>
  Claim C6, amended. For every POST request with the credential present whose body is
  neither undefined nor null and whose model or messages is missing or falsy (undefined,
  null, false, 0 or the empty string), the handler returns status 400 with the body
  \<^verbatim>\<open>{"error":"Bad request","message":"Missing required fields: model and messages"}\<close> and
  makes no upstream call.
\<close>

theorem missing_fields:
  assumes "req_method req = ''POST''"
    and "FIREWORKS_API_KEY env = Some apiKey" and "apiKey \<noteq> []"
    and "\<not> nullish (req_body req)"
    and "\<not> truthy (own (req_body req) ''model'') \<or> \<not> truthy (own (req_body req) ''messages'')"
  shows "module_exports rt env fetch req =
    \<lparr>response = \<lparr>statusCode = 400, headers = cors_headers, written = [],
                  jsonBody = Some (JObj [(''error'', JStr ''Bad request''),
                    (''message'', JStr ''Missing required fields: model and messages'')]),
                  ended = True\<rparr>,
     fetched = []\<rparr>"
proof -
  have "try_block rt env fetch req (cors new_response) =
     (Inr (res_json (JObj [(''error'', JStr ''Bad request''),
                  (''message'', JStr ''Missing required fields: model and messages'')])
                 (res_status 400 (cors new_response))), [])"
    using assms(2-5) by (auto simp add: try_block_def Let_def)
  then show ?thesis
    by (simp add: handler_POST [OF assms(1)] cors_new_response res_json_def res_status_def)
qed

text \<open>Claim C6, amended, at a POST request that has a model and no messages.\<close>

theorem missing_fields_witness:
  "req_method (bare_request ''POST'' (JObj [(''model'', JStr ''llama'')])) = ''POST''
   \<and> FIREWORKS_API_KEY configured = Some ''fw-key'' \<and> ''fw-key'' \<noteq> []
   \<and> \<not> nullish (req_body (bare_request ''POST'' (JObj [(''model'', JStr ''llama'')])))
   \<and> \<not> truthy (own (req_body (bare_request ''POST'' (JObj [(''model'', JStr ''llama'')]))) ''messages'')
   \<and> module_exports example_rt configured (answers completion_answer)
        (bare_request ''POST'' (JObj [(''model'', JStr ''llama'')])) =
    \<lparr>response = \<lparr>statusCode = 400, headers = cors_headers, written = [],
                  jsonBody = Some (JObj [(''error'', JStr ''Bad request''),
                    (''message'', JStr ''Missing required fields: model and messages'')]),
                  ended = True\<rparr>,
     fetched = []\<rparr>"
proof -
  have h1: "req_method (bare_request ''POST'' (JObj [(''model'', JStr ''llama'')])) = ''POST''"
    by (simp add: bare_request_def)
  have h2: "FIREWORKS_API_KEY configured = Some ''fw-key''"
    by (simp add: configured_def)
  have h3: "''fw-key'' \<noteq> []" by simp
  have h4: "\<not> nullish (req_body (bare_request ''POST'' (JObj [(''model'', JStr ''llama'')])))"
    by (simp add: bare_request_def nullish_def)
  have h5: "\<not> truthy (own (req_body (bare_request ''POST'' (JObj [(''model'', JStr ''llama'')]))) ''model'')
          \<or> \<not> truthy (own (req_body (bare_request ''POST'' (JObj [(''model'', JStr ''llama'')]))) ''messages'')"
    by (simp add: bare_request_def)
  show ?thesis
    using h1 h2 h3 h4 h5 missing_fields [OF h1 h2 h3 h4 h5] by (simp add: bare_request_def)
qed

section \<open>The request sent upstream\<close>

lemma own_fireworksPayload:
  "own (fireworksPayload rt b) ''model'' = own b ''model''"
  "own (fireworksPayload rt b) ''messages'' = own b ''messages''"
  "own (fireworksPayload rt b) ''temperature'' = js_or (own b ''temperature'') (JNum 0.6)"
  "own (fireworksPayload rt b) ''top_p'' = js_or (own b ''top_p'') (JNum 1)"
  "own (fireworksPayload rt b) ''top_k'' = js_or (own b ''top_k'') (JNum 40)"
  "own (fireworksPayload rt b) ''max_tokens'' = js_or (own b ''max_tokens'') (JNum 8192)"
  "own (fireworksPayload rt b) ''presence_penalty'' = js_or (own b ''presence_penalty'') (JNum 0)"
  "own (fireworksPayload rt b) ''frequency_penalty'' = js_or (own b ''frequency_penalty'') (JNum 0)"
  "own (fireworksPayload rt b) ''stream'' = js_or (own b ''stream'') (JBool False)"
  by (simp_all add: fireworksPayload_def)

text \<open>
  Claim C3. In the payload of every upstream call, model and messages are those of the
  request, and each optional field that the request leaves out has its default:
  temperature 0.6, top_p 1, top_k 40, max_tokens 8192, presence_penalty 0,
  frequency_penalty 0, stream false. A field the caller gives as 0 is treated as a field
  left out: it too is replaced by the default. Every other value the caller gives, that
  is every truthy one, is sent as it was given.
\<close>

theorem payload_defaults:
  assumes "fr \<in> set (fetched (module_exports rt env fetch req))"
  shows "own (fetch_body fr) ''model'' = own (req_body req) ''model''
       \<and> own (fetch_body fr) ''messages'' = own (req_body req) ''messages''
       \<and> (\<forall>(field, default) \<in> set
              [(''temperature'', JNum 0.6), (''top_p'', JNum 1), (''top_k'', JNum 40),
               (''max_tokens'', JNum 8192), (''presence_penalty'', JNum 0),
               (''frequency_penalty'', JNum 0), (''stream'', JBool False)].
            (own (req_body req) field = JUndefined \<or> own (req_body req) field = JNum 0
               \<longrightarrow> own (fetch_body fr) field = default)
          \<and> (truthy (own (req_body req) field)
               \<longrightarrow> own (fetch_body fr) field = own (req_body req) field))"
proof -
  from handler_fetched [OF assms] obtain apiKey
    where "fr = fireworksRequest rt apiKey (req_body req)"
    by blast
  then have "fetch_body fr = fireworksPayload rt (req_body req)"
    by (simp add: fireworksRequest_def)
  then show ?thesis
    by (auto simp add: own_fireworksPayload js_or_def)
qed

text \<open>
  Claim C3 at two requests. The first gives temperature, top_p, max_tokens,
  presence_penalty and stream as 0 and leaves top_k and frequency_penalty out: the
  payload has the seven defaults. The second gives each of the seven fields a value
  that is not 0: the payload has the seven values of the caller.
\<close>

theorem payload_defaults_witness:
  "fireworksRequest example_rt ''fw-key'' (req_body zeros_request)
     \<in> set (fetched (module_exports example_rt configured (answers completion_answer) zeros_request))
   \<and> own (req_body zeros_request) ''temperature'' = JNum 0
   \<and> own (req_body zeros_request) ''top_p'' = JNum 0
   \<and> own (req_body zeros_request) ''top_k'' = JUndefined
   \<and> own (req_body zeros_request) ''max_tokens'' = JNum 0
   \<and> own (req_body zeros_request) ''presence_penalty'' = JNum 0
   \<and> own (req_body zeros_request) ''frequency_penalty'' = JUndefined
   \<and> own (req_body zeros_request) ''stream'' = JNum 0
   \<and> own (fetch_body (fireworksRequest example_rt ''fw-key'' (req_body zeros_request))) ''temperature'' = JNum 0.6
   \<and> own (fetch_body (fireworksRequest example_rt ''fw-key'' (req_body zeros_request))) ''top_p'' = JNum 1
   \<and> own (fetch_body (fireworksRequest example_rt ''fw-key'' (req_body zeros_request))) ''top_k'' = JNum 40
   \<and> own (fetch_body (fireworksRequest example_rt ''fw-key'' (req_body zeros_request))) ''max_tokens'' = JNum 8192
   \<and> own (fetch_body (fireworksRequest example_rt ''fw-key'' (req_body zeros_request))) ''presence_penalty'' = JNum 0
   \<and> own (fetch_body (fireworksRequest example_rt ''fw-key'' (req_body zeros_request))) ''frequency_penalty'' = JNum 0
   \<and> own (fetch_body (fireworksRequest example_rt ''fw-key'' (req_body zeros_request))) ''stream'' = JBool False
   \<and> fireworksRequest example_rt ''fw-key'' (req_body tuned_request)
     \<in> set (fetched (module_exports example_rt configured (answers completion_answer) tuned_request))
   \<and> truthy (own (req_body tuned_request) ''temperature'')
   \<and> truthy (own (req_body tuned_request) ''top_p'')
   \<and> truthy (own (req_body tuned_request) ''top_k'')
   \<and> truthy (own (req_body tuned_request) ''max_tokens'')
   \<and> truthy (own (req_body tuned_request) ''presence_penalty'')
   \<and> truthy (own (req_body tuned_request) ''frequency_penalty'')
   \<and> truthy (own (req_body tuned_request) ''stream'')
   \<and> own (fetch_body (fireworksRequest example_rt ''fw-key'' (req_body tuned_request))) ''model'' = JStr ''llama''
   \<and> own (fetch_body (fireworksRequest example_rt ''fw-key'' (req_body tuned_request))) ''temperature'' = JNum 0.2
   \<and> own (fetch_body (fireworksRequest example_rt ''fw-key'' (req_body tuned_request))) ''top_p'' = JNum 0.9
   \<and> own (fetch_body (fireworksRequest example_rt ''fw-key'' (req_body tuned_request))) ''top_k'' = JNum 10
   \<and> own (fetch_body (fireworksRequest example_rt ''fw-key'' (req_body tuned_request))) ''max_tokens'' = JNum 256
   \<and> own (fetch_body (fireworksRequest example_rt ''fw-key'' (req_body tuned_request))) ''presence_penalty'' = JNum 0.5
   \<and> own (fetch_body (fireworksRequest example_rt ''fw-key'' (req_body tuned_request))) ''frequency_penalty'' = JNum 0.25
   \<and> own (fetch_body (fireworksRequest example_rt ''fw-key'' (req_body tuned_request))) ''stream'' = JBool True"
proof -
  have h: "fireworksRequest example_rt ''fw-key'' (req_body zeros_request)
     \<in> set (fetched (module_exports example_rt configured (answers completion_answer) zeros_request))"
    by code_simp
  have b: "own (req_body zeros_request) ''temperature'' = JNum 0"
    "own (req_body zeros_request) ''top_p'' = JNum 0"
    "own (req_body zeros_request) ''top_k'' = JUndefined"
    "own (req_body zeros_request) ''max_tokens'' = JNum 0"
    "own (req_body zeros_request) ''presence_penalty'' = JNum 0"
    "own (req_body zeros_request) ''frequency_penalty'' = JUndefined"
    "own (req_body zeros_request) ''stream'' = JNum 0"
    by (simp_all add: zeros_request_def)
  have "fetched (module_exports example_rt configured (answers completion_answer) tuned_request)
          = [fireworksRequest example_rt ''fw-key'' (req_body tuned_request)]"
    by (rule message_objects_reach_upstream
          [where ms = "[JObj [(''role'', JStr ''user''), (''content'', JStr ''2+2?'')]]"])
      (simp_all add: tuned_request_def configured_def message_object_def)
  then have h': "fireworksRequest example_rt ''fw-key'' (req_body tuned_request)
     \<in> set (fetched (module_exports example_rt configured (answers completion_answer) tuned_request))"
    by simp
  have b': "own (req_body tuned_request) ''model'' = JStr ''llama''"
    "own (req_body tuned_request) ''temperature'' = JNum 0.2"
    "own (req_body tuned_request) ''top_p'' = JNum 0.9"
    "own (req_body tuned_request) ''top_k'' = JNum 10"
    "own (req_body tuned_request) ''max_tokens'' = JNum 256"
    "own (req_body tuned_request) ''presence_penalty'' = JNum 0.5"
    "own (req_body tuned_request) ''frequency_penalty'' = JNum 0.25"
    "own (req_body tuned_request) ''stream'' = JBool True"
    by (simp_all add: tuned_request_def)
  show ?thesis
    using h b h' b' payload_defaults [OF h] payload_defaults [OF h'] by simp
qed

section \<open>Answers of the upstream API that are not a success\<close>

text \<open>
  Claim C5. Whenever the handler has called the upstream API and the answer has a status
  \<open>S\<close> outside 200 to 299 and the body text \<open>T\<close>, the response has status \<open>S\<close> and the
  body \<^verbatim>\<open>{"error":"API request failed","message":T}\<close>, for a streaming request as for any
  other: nothing has been written to the response as a stream, and its headers are
  those of lines 3 to 5.
\<close>

theorem upstream_error_relayed:
  assumes "fr \<in> set (fetched (module_exports rt env fetch req))"
    and "fetch fr = Resolved r" and "\<not> ok r" and "up_text r = Inr T"
  shows "module_exports rt env fetch req =
    \<lparr>response = \<lparr>statusCode = up_status r, headers = cors_headers, written = [],
         jsonBody = Some (JObj [(''error'', JStr ''API request failed''), (''message'', JStr T)]),
         ended = True\<rparr>,
     fetched = [fr]\<rparr>"
proof -
  from handler_fetched [OF assms(1)] obtain cod where
    post: "req_method req = ''POST''" and
    tb: "try_block rt env fetch req (cors new_response) =
             (case fetch fr of
                Rejected e \<Rightarrow> Inl e
              | Resolved r \<Rightarrow>
                  if truthy (own (req_body req) ''stream'') then streaming r (cors new_response)
                  else non_streaming cod r (cors new_response), [fr])"
    by blast
  have "streaming r (cors new_response) = api_request_failed r (cors new_response)"
    and "non_streaming cod r (cors new_response) = api_request_failed r (cors new_response)"
    using assms(3) by (simp_all add: streaming_def non_streaming_def)
  then have "try_block rt env fetch req (cors new_response)
               = (api_request_failed r (cors new_response), [fr])"
    using assms(2) by (simp add: tb)
  then show ?thesis
    using assms(4)
    by (simp add: handler_POST [OF post] api_request_failed_def cors_new_response
          res_json_def res_status_def)
qed

text \<open>Claim C5 at a streaming request that the upstream API answers with 429.\<close>

theorem upstream_error_relayed_witness:
  "fireworksRequest example_rt ''fw-key'' (req_body (chat_request ''2+2?'' True))
     \<in> set (fetched (module_exports example_rt configured (answers rate_limited)
               (chat_request ''2+2?'' True)))
   \<and> truthy (own (req_body (chat_request ''2+2?'' True)) ''stream'')
   \<and> answers rate_limited (fireworksRequest example_rt ''fw-key'' (req_body (chat_request ''2+2?'' True)))
       = Resolved rate_limited
   \<and> \<not> ok rate_limited \<and> up_text rate_limited = Inr ''rate limited''
   \<and> response (module_exports example_rt configured (answers rate_limited)
        (chat_request ''2+2?'' True)) =
      \<lparr>statusCode = 429, headers = cors_headers, written = [],
         jsonBody = Some (JObj [(''error'', JStr ''API request failed''),
                                (''message'', JStr ''rate limited'')]),
         ended = True\<rparr>"
proof -
  have h1: "fireworksRequest example_rt ''fw-key'' (req_body (chat_request ''2+2?'' True))
     \<in> set (fetched (module_exports example_rt configured (answers rate_limited)
               (chat_request ''2+2?'' True)))"
    by (simp add: chat_request_fetched)
  have h2: "answers rate_limited
              (fireworksRequest example_rt ''fw-key'' (req_body (chat_request ''2+2?'' True)))
            = Resolved rate_limited"
    by (simp add: answers_def)
  have h3: "\<not> ok rate_limited" by (simp add: ok_def rate_limited_def)
  have h4: "up_text rate_limited = Inr ''rate limited''" by (simp add: rate_limited_def)
  have h5: "truthy (own (req_body (chat_request ''2+2?'' True)) ''stream'')"
    by (simp add: chat_request_def)
  show ?thesis
    using h1 h2 h3 h4 h5 upstream_error_relayed [OF h1 h2 h3 h4] by (simp add: rate_limited_def)
qed

section \<open>The logging of Chain-of-Draft reflections\<close>

text \<open>
  Claim C2 says that a successful answer with JSON body \<open>B\<close> to a request that does not
  stream is relayed with status 200 and body \<open>B\<close>. When a message of the request holds
  a reflection marker, the log of lines 172 to 189 calls \<^verbatim>\<open>match\<close> on the content of
  the answer; a content that is not a string has no \<^verbatim>\<open>match\<close>, the call throws, and
  the handler answers 500 where the claim says 200 with \<open>B\<close>.
\<close>

theorem response_log_breaks_relay:
  "up_status parts_answer = 200
   \<and> up_json parts_answer = Inr (JObj [(''choices'', JArr [JObj [(''message'',
          JObj [(''role'', JStr ''assistant''),
                (''content'', JArr [JObj [(''type'', JStr ''text''), (''text'', JStr ''4'')]])])]])])
   \<and> module_exports example_rt configured (answers parts_answer)
        (chat_request ''Use Chain of Draft. 2+2?'' False) =
      \<lparr>response = \<lparr>statusCode = 500, headers = cors_headers, written = [],
           jsonBody = Some (JObj [(''error'', JStr ''Internal server error''),
                                  (''message'', JStr ''responseContent.match is not a function'')]),
           ended = True\<rparr>,
       fetched = [fireworksRequest example_rt ''fw-key''
                    (req_body (chat_request ''Use Chain of Draft. 2+2?'' False))]\<rparr>"
  by code_simp

text \<open>
  Claim C9 says that the logging of reflection markers never changes the response, and
  that the handler would answer the same without it. Two requests that differ only in
  the marker \<^verbatim>\<open>~150 tokens\<close>, answered alike by the upstream API with the JSON body
  \<^verbatim>\<open>null\<close>: without the marker the body is relayed with status 200; with it the log
  reads \<^verbatim>\<open>data.choices\<close> of null, which throws, and the response is a 500. And a
  request whose last message has a list of parts as content is never sent upstream: the
  request log of line 56 calls \<^verbatim>\<open>substring\<close> on the list, which throws.
\<close>

theorem logging_changes_response:
  "response (module_exports example_rt configured (answers (json_answer ''null'' JNull))
        (chat_request ''2+2?'' False)) =
      \<lparr>statusCode = 200, headers = cors_headers, written = [], jsonBody = Some JNull, ended = True\<rparr>
   \<and> response (module_exports example_rt configured (answers (json_answer ''null'' JNull))
        (chat_request ''2+2? ~150 tokens'' False)) =
      \<lparr>statusCode = 500, headers = cors_headers, written = [],
           jsonBody = Some (JObj [(''error'', JStr ''Internal server error''),
                                  (''message'', JStr ''Cannot read properties of null (reading choices)'')]),
           ended = True\<rparr>
   \<and> module_exports example_rt configured (answers completion_answer) parts_request =
      \<lparr>response = \<lparr>statusCode = 500, headers = cors_headers, written = [],
           jsonBody = Some (JObj [(''error'', JStr ''Internal server error''),
             (''message'', JStr ''messages[(messages.length - 1)]?.content?.substring is not a function'')]),
           ended = True\<rparr>,
       fetched = []\<rparr>"
  by code_simp

section \<open>Decoding what the encoder wrote\<close>

text \<open>
  The masks and shifts of the decoder and the encoder, as division and remainder.
\<close>

lemma and_mask_mod: "(x::nat) AND (2 ^ n - 1) = x mod 2 ^ n"
  by (simp add: take_bit_eq_mod [symmetric] take_bit_eq_mask mask_eq_exp_minus_1)

lemma and_3F: "(x::nat) AND 0x3F = x mod 64"
  using and_mask_mod [of x 6] by simp

lemma and_1F: "(x::nat) AND 0x1F = x mod 32"
  using and_mask_mod [of x 5] by simp

lemma and_F: "(x::nat) AND 0xF = x mod 16"
  using and_mask_mod [of x 4] by simp

lemma and_7: "(x::nat) AND 0x7 = x mod 8"
  using and_mask_mod [of x 3] by simp

lemma push_or_mod: "push_bit 6 (a::nat) OR (b mod 64) = a * 64 + b mod 64"
proof -
  have "push_bit 6 a AND take_bit 6 b = 0"
    by (rule bit_eqI) (auto simp add: bit_simps)
  then have "push_bit 6 a + take_bit 6 b = push_bit 6 a OR take_bit 6 b"
    by (rule disjunctive_add_eq_or)
  then show ?thesis
    by (simp add: take_bit_eq_mod push_bit_eq_mult)
qed

lemma or_80_mod: "(0x80::nat) OR (b mod 64) = 128 + b mod 64"
proof -
  have "push_bit 6 (2::nat) OR (b mod 64) = 2 * 64 + b mod 64"
    by (rule push_or_mod)
  then show ?thesis by (simp add: push_bit_eq_mult)
qed

text \<open>
  The decoder gives back the code point of every encoded scalar value and is then in its
  initial state again: one case for each length of the encoding.
\<close>

lemma decode_one_byte:
  assumes "cp \<le> 0x7F"
  shows "utf8_decode utf8_initial (utf8_encode_cp cp) = (utf8_initial, [cp])"
proof -
  have "cp mod 256 = cp" using assms by simp
  then show ?thesis
    using assms by (simp add: utf8_encode_cp_def utf8_handler_def lead_byte_def utf8_initial_def)
qed

lemma continuation_eq:
  "continuation shift cp = char_of (128 + (cp div 2 ^ shift) mod 64)"
  by (simp add: continuation_def and_3F or_80_mod drop_bit_eq_div)

lemma of_char_of_byte: "b < 256 \<Longrightarrow> of_char (char_of b) = (b::nat)"
  by simp

lemma decode_bytes2:
  assumes "0xC2 \<le> b1" "b1 \<le> 0xDF" "0x80 \<le> b2" "b2 \<le> 0xBF"
  shows "utf8_decode utf8_initial [char_of b1, char_of b2] =
           (utf8_initial, [b1 mod 32 * 64 + b2 mod 64])"
proof -
  have "b1 < 256" "b2 < 256" using assms by simp_all
  then have "of_char (char_of b1) = b1" "of_char (char_of b2) = b2"
    by (simp_all only: of_char_of_byte)
  then show ?thesis
    using assms
    by (simp add: utf8_handler_def lead_byte_def utf8_initial_def and_1F and_3F push_or_mod)
qed

lemma decode_bytes3:
  assumes "0xE0 \<le> b1" "b1 \<le> 0xEF" "0x80 \<le> b2" "b2 \<le> 0xBF" "0x80 \<le> b3" "b3 \<le> 0xBF"
    and "b1 = 0xE0 \<Longrightarrow> 0xA0 \<le> b2" and "b1 = 0xED \<Longrightarrow> b2 \<le> 0x9F"
  shows "utf8_decode utf8_initial [char_of b1, char_of b2, char_of b3] =
           (utf8_initial, [(b1 mod 16 * 64 + b2 mod 64) * 64 + b3 mod 64])"
proof -
  have "b1 < 256" "b2 < 256" "b3 < 256" using assms by simp_all
  then have "of_char (char_of b1) = b1" "of_char (char_of b2) = b2" "of_char (char_of b3) = b3"
    by (simp_all only: of_char_of_byte)
  then show ?thesis
    using assms
    by (auto simp add: utf8_handler_def lead_byte_def utf8_initial_def and_F and_3F push_or_mod)
qed

lemma decode_bytes4:
  assumes "0xF0 \<le> b1" "b1 \<le> 0xF4" "0x80 \<le> b2" "b2 \<le> 0xBF" "0x80 \<le> b3" "b3 \<le> 0xBF"
    and "0x80 \<le> b4" "b4 \<le> 0xBF"
    and "b1 = 0xF0 \<Longrightarrow> 0x90 \<le> b2" and "b1 = 0xF4 \<Longrightarrow> b2 \<le> 0x8F"
  shows "utf8_decode utf8_initial [char_of b1, char_of b2, char_of b3, char_of b4] =
           (utf8_initial, [((b1 mod 8 * 64 + b2 mod 64) * 64 + b3 mod 64) * 64 + b4 mod 64])"
proof -
  have "b1 < 256" "b2 < 256" "b3 < 256" "b4 < 256" using assms by simp_all
  then have "of_char (char_of b1) = b1" "of_char (char_of b2) = b2" "of_char (char_of b3) = b3"
    "of_char (char_of b4) = b4"
    by (simp_all only: of_char_of_byte)
  then show ?thesis
    using assms
    by (auto simp add: utf8_handler_def lead_byte_def utf8_initial_def and_7 and_3F push_or_mod)
qed


lemma decode_two_bytes:
  assumes "0x80 \<le> cp" and "cp \<le> 0x7FF"
  shows "utf8_decode utf8_initial (utf8_encode_cp cp) = (utf8_initial, [cp])"
proof -
  define b1 where "b1 = cp div 64 + 192"
  define b2 where "b2 = 128 + cp mod 64"
  have enc: "utf8_encode_cp cp = [char_of b1, char_of b2]"
    using assms by (simp add: utf8_encode_cp_def continuation_eq b1_def b2_def drop_bit_eq_div)
  have lo: "2 \<le> cp div 64" using assms(1) by linarith
  have hi: "cp div 64 \<le> 31" using assms(2) by linarith
  have r: "cp mod 64 \<le> 63" by simp
  have "(cp div 64 + 6 * 32) mod 32 = cp div 64 mod 32"
    by (rule mod_mult_self1)
  then have m1: "b1 mod 32 = cp div 64" using hi unfolding b1_def by simp
  have "(cp mod 64 + 2 * 64) mod 64 = cp mod 64 mod 64"
    by (rule mod_mult_self1)
  then have m2: "b2 mod 64 = cp mod 64" unfolding b2_def by (simp add: add.commute)
  have "utf8_decode utf8_initial [char_of b1, char_of b2] = (utf8_initial, [b1 mod 32 * 64 + b2 mod 64])"
    using lo hi r unfolding b1_def b2_def by (intro decode_bytes2) simp_all
  then show ?thesis
    by (simp add: enc m1 m2)
qed

lemma div_4096: "(cp::nat) div 4096 = cp div 64 div 64"
proof -
  have "cp div (64 * 64) = cp div 64 div 64" by (rule div_mult2_eq)
  then show ?thesis by simp
qed

lemma div_262144: "(cp::nat) div 262144 = cp div 64 div 64 div 64"
proof -
  have "cp div (4096 * 64) = cp div 4096 div 64" by (rule div_mult2_eq)
  then show ?thesis by (simp add: div_4096)
qed

lemma mod_64_add_128: "(128 + x mod 64) mod 64 = (x::nat) mod 64"
proof -
  have "(x mod 64 + 2 * 64) mod 64 = x mod 64 mod 64"
    by (rule mod_mult_self1)
  then show ?thesis by (simp add: add.commute)
qed

lemma decode_three_bytes:
  assumes "0x800 \<le> cp" and "cp \<le> 0xFFFF" and "cp < 0xD800 \<or> 0xE000 \<le> cp"
  shows "utf8_decode utf8_initial (utf8_encode_cp cp) = (utf8_initial, [cp])"
proof -
  define d where "d = cp div 64"
  define q where "q = d div 64"
  define b1 where "b1 = q + 224"
  define b2 where "b2 = 128 + d mod 64"
  define b3 where "b3 = 128 + cp mod 64"
  have enc: "utf8_encode_cp cp = [char_of b1, char_of b2, char_of b3]"
    using assms
    by (auto simp add: utf8_encode_cp_def continuation_eq b1_def b2_def b3_def q_def d_def
          drop_bit_eq_div div_4096)
  have d: "32 \<le> d" "d \<le> 1023" "d \<le> 863 \<or> 896 \<le> d"
    using assms unfolding d_def by linarith+
  have dq: "q * 64 + d mod 64 = d"
    unfolding q_def by simp
  have q: "q \<le> 15" using d(2) unfolding q_def by linarith
  have "(q + 14 * 16) mod 16 = q mod 16"
    by (rule mod_mult_self1)
  then have m1: "b1 mod 16 = q" using q unfolding b1_def by simp
  have m2: "b2 mod 64 = d mod 64" unfolding b2_def by (rule mod_64_add_128)
  have m3: "b3 mod 64 = cp mod 64" unfolding b3_def by (rule mod_64_add_128)
  have e0: "160 \<le> b2" if "b1 = 224"
    using that d(1) dq unfolding b1_def b2_def by simp
  have ed: "b2 \<le> 159" if "b1 = 237"
  proof -
    from that have "q = 13" unfolding b1_def by simp
    with dq have "d = 832 + d mod 64" by simp
    moreover have "d mod 64 < 64" by simp
    ultimately have "d mod 64 \<le> 31" using d(3) by linarith
    then show ?thesis unfolding b2_def by simp
  qed
  have "utf8_decode utf8_initial [char_of b1, char_of b2, char_of b3] =
          (utf8_initial, [(b1 mod 16 * 64 + b2 mod 64) * 64 + b3 mod 64])"
  proof (rule decode_bytes3)
    show "0xE0 \<le> b1" "b1 \<le> 0xEF" using q unfolding b1_def by simp_all
    show "0x80 \<le> b2" "b2 \<le> 0xBF" unfolding b2_def by simp_all
    show "0x80 \<le> b3" "b3 \<le> 0xBF" unfolding b3_def by simp_all
    show "0xA0 \<le> b2" if "b1 = 0xE0" using e0 that by simp
    show "b2 \<le> 0x9F" if "b1 = 0xED" using ed that by simp
  qed
  moreover have "(b1 mod 16 * 64 + b2 mod 64) * 64 + b3 mod 64 = cp"
    unfolding m1 m2 m3 dq unfolding d_def by simp
  ultimately show ?thesis by (simp add: enc)
qed

lemma decode_four_bytes:
  assumes "0x10000 \<le> cp" and "cp \<le> 0x10FFFF"
  shows "utf8_decode utf8_initial (utf8_encode_cp cp) = (utf8_initial, [cp])"
proof -
  define d where "d = cp div 64"
  define e where "e = d div 64"
  define q where "q = e div 64"
  define b1 where "b1 = q + 240"
  define b2 where "b2 = 128 + e mod 64"
  define b3 where "b3 = 128 + d mod 64"
  define b4 where "b4 = 128 + cp mod 64"
  have enc: "utf8_encode_cp cp = [char_of b1, char_of b2, char_of b3, char_of b4]"
    using assms
    by (simp add: utf8_encode_cp_def continuation_eq b1_def b2_def b3_def b4_def q_def e_def d_def
          drop_bit_eq_div div_4096 div_262144)
  have e: "16 \<le> e" "e \<le> 271"
    using assms unfolding e_def d_def by linarith+
  have eq: "q * 64 + e mod 64 = e"
    unfolding q_def by simp
  have de: "e * 64 + d mod 64 = d"
    unfolding e_def by simp
  have q: "q \<le> 4" using e(2) unfolding q_def by linarith
  have "(q + 30 * 8) mod 8 = q mod 8"
    by (rule mod_mult_self1)
  then have m1: "b1 mod 8 = q" using q unfolding b1_def by simp
  have m2: "b2 mod 64 = e mod 64" unfolding b2_def by (rule mod_64_add_128)
  have m3: "b3 mod 64 = d mod 64" unfolding b3_def by (rule mod_64_add_128)
  have m4: "b4 mod 64 = cp mod 64" unfolding b4_def by (rule mod_64_add_128)
  have f0: "144 \<le> b2" if "b1 = 240"
    using that e(1) eq unfolding b1_def b2_def by simp
  have f4: "b2 \<le> 143" if "b1 = 244"
  proof -
    from that have "q = 4" unfolding b1_def by simp
    with eq have "e = 256 + e mod 64" by simp
    then have "e mod 64 \<le> 15" using e(2) by linarith
    then show ?thesis unfolding b2_def by simp
  qed
  have "utf8_decode utf8_initial [char_of b1, char_of b2, char_of b3, char_of b4] =
          (utf8_initial, [((b1 mod 8 * 64 + b2 mod 64) * 64 + b3 mod 64) * 64 + b4 mod 64])"
  proof (rule decode_bytes4)
    show "0xF0 \<le> b1" "b1 \<le> 0xF4" using q unfolding b1_def by simp_all
    show "0x80 \<le> b2" "b2 \<le> 0xBF" unfolding b2_def by simp_all
    show "0x80 \<le> b3" "b3 \<le> 0xBF" unfolding b3_def by simp_all
    show "0x80 \<le> b4" "b4 \<le> 0xBF" unfolding b4_def by simp_all
    show "0x90 \<le> b2" if "b1 = 0xF0" using f0 that by simp
    show "b2 \<le> 0x8F" if "b1 = 0xF4" using f4 that by simp
  qed
  moreover have "((b1 mod 8 * 64 + b2 mod 64) * 64 + b3 mod 64) * 64 + b4 mod 64 = cp"
    unfolding m1 m2 m3 m4 eq de unfolding d_def by simp
  ultimately show ?thesis by (simp add: enc)
qed

lemma decode_encode_cp:
  assumes "scalar_value cp"
  shows "utf8_decode utf8_initial (utf8_encode_cp cp) = (utf8_initial, [cp])"
proof -
  consider "cp \<le> 0x7F" | "0x80 \<le> cp" "cp \<le> 0x7FF" | "0x800 \<le> cp" "cp \<le> 0xFFFF" | "0x10000 \<le> cp"
    by linarith
  then show ?thesis
  proof cases
    case 1
    then show ?thesis by (rule decode_one_byte)
  next
    case 2
    then show ?thesis by (rule decode_two_bytes)
  next
    case 3
    with assms show ?thesis by (intro decode_three_bytes) (auto simp add: scalar_value_def)
  next
    case 4
    with assms show ?thesis by (intro decode_four_bytes) (auto simp add: scalar_value_def)
  qed
qed

text \<open>
  So a chunk that is the encoding of a string is decoded to that string, and written
  again as the same bytes; only the first code point of the stream is lost when it is the
  byte order mark.
\<close>

lemma utf8_decode_append:
  "utf8_decode d (xs @ ys) =
     (let (d1, out1) = utf8_decode d xs; (d2, out2) = utf8_decode d1 ys in (d2, out1 @ out2))"
  by (induction xs arbitrary: d) (simp_all add: split_beta)

lemma decode_encode:
  assumes "\<forall>cp \<in> set cps. scalar_value cp"
  shows "utf8_decode utf8_initial (utf8_encode cps) = (utf8_initial, cps)"
  using assms
proof (induction cps)
  case Nil
  then show ?case by (simp add: utf8_encode_def)
next
  case (Cons cp cps)
  then have "utf8_decode utf8_initial (utf8_encode_cp cp) = (utf8_initial, [cp])"
    and "utf8_decode utf8_initial (utf8_encode cps) = (utf8_initial, cps)"
    by (simp_all add: decode_encode_cp)
  then show ?case
    by (simp add: utf8_encode_def utf8_decode_append)
qed

lemma decode_stream_encode:
  assumes "decoder td = utf8_initial" and "\<forall>cp \<in> set cps. scalar_value cp"
    and "BOM_seen td \<or> cps = [] \<or> hd cps \<noteq> 0xFEFF"
  shows "decode_stream td (utf8_encode cps) = (td\<lparr>BOM_seen := BOM_seen td \<or> cps \<noteq> []\<rparr>, cps)"
  using assms(1,3) by (cases td) (auto simp add: decode_stream_def decode_encode [OF assms(2)])

lemma relay_encoded:
  assumes "decoder td = utf8_initial" and "\<forall>t \<in> set texts. \<forall>cp \<in> set t. scalar_value cp"
    and "BOM_seen td \<or> concat texts = [] \<or> hd (concat texts) \<noteq> 0xFEFF"
  shows "relay td (map utf8_encode texts) res = res\<lparr>written := written res @ map utf8_encode texts\<rparr>"
  using assms
proof (induction texts arbitrary: td res)
  case Nil
  then show ?case by simp
next
  case (Cons t texts)
  let ?td = "td\<lparr>BOM_seen := BOM_seen td \<or> t \<noteq> []\<rparr>"
  have t: "BOM_seen td \<or> t = [] \<or> hd t \<noteq> 0xFEFF"
    using Cons.prems(3) by (cases t) auto
  have step: "decode_stream td (utf8_encode t) = (?td, t)"
    using Cons.prems(1,2) t by (intro decode_stream_encode) simp_all
  have "BOM_seen ?td \<or> concat texts = [] \<or> hd (concat texts) \<noteq> 0xFEFF"
    using Cons.prems(3) by (cases t) auto
  moreover have "decoder ?td = utf8_initial"
    using Cons.prems(1) by simp
  ultimately have "relay ?td (map utf8_encode texts) (res_write t res)
      = (res_write t res)\<lparr>written := written (res_write t res) @ map utf8_encode texts\<rparr>"
    using Cons.prems(2) by (intro Cons.IH) simp_all
  then show ?case
    by (simp add: step res_write_def)
qed

lemma relay_written_only:
  "relay td cs res = res\<lparr>written := written (relay td cs res)\<rparr>"
proof (induction cs arbitrary: td res)
  case Nil
  then show ?case by simp
next
  case (Cons c cs)
  obtain td' chunk where step: "decode_stream td c = (td', chunk)"
    by (cases "decode_stream td c")
  have "relay td' cs (res_write chunk res)
          = (res_write chunk res)\<lparr>written := written (relay td' cs (res_write chunk res))\<rparr>"
    by (rule Cons.IH)
  then show ?case
    by (simp add: step res_write_def)
qed

lemma utf8_encode_ascii:
  assumes "\<forall>c \<in> set s. of_char c \<le> (0x7F::nat)"
  shows "utf8_encode (map of_char s) = s"
  using assms by (induction s) (simp_all add: utf8_encode_def utf8_encode_cp_def)

lemma streaming_interrupted_bytes:
  \<open>utf8_encode streaming_interrupted = ''data: {"error": "Streaming interrupted"}'' @ [CHR 0x0A, CHR 0x0A]\<close>
  unfolding streaming_interrupted_def by (rule utf8_encode_ascii) simp

section \<open>The streaming path\<close>

lemma event_stream_cors:
  "event_stream (cors new_response) =
     \<lparr>statusCode = 200,
      headers = [(''Access-Control-Allow-Origin'', ''*''),
                 (''Access-Control-Allow-Methods'', ''GET, POST, OPTIONS''),
                 (''Access-Control-Allow-Headers'', ''Content-Type''),
                 (''Content-Type'', ''text/event-stream''),
                 (''Cache-Control'', ''no-cache''),
                 (''Connection'', ''keep-alive'')],
      written = [], jsonBody = None, ended = False\<rparr>"
  by (simp add: event_stream_def cors_new_response res_setHeader_def cors_headers_def)

lemma streamed_response:
  assumes "fr \<in> set (fetched (module_exports rt env fetch req))"
    and "truthy (own (req_body req) ''stream'')"
    and "fetch fr = Resolved r" and "ok r" and "up_body r = Some (cs, ending)"
  shows "module_exports rt env fetch req =
    \<lparr>response =
       (case ending of
          EndOfData \<Rightarrow> res_end (relay new_TextDecoder cs (event_stream (cors new_response)))
        | ReadFails e \<Rightarrow>
            res_end (res_write streaming_interrupted
              (relay new_TextDecoder cs (event_stream (cors new_response))))),
     fetched = [fr]\<rparr>"
proof -
  from handler_fetched [OF assms(1)] obtain cod where
    post: "req_method req = ''POST''" and
    tb: "try_block rt env fetch req (cors new_response) =
             (case fetch fr of
                Rejected e \<Rightarrow> Inl e
              | Resolved r \<Rightarrow>
                  if truthy (own (req_body req) ''stream'') then streaming r (cors new_response)
                  else non_streaming cod r (cors new_response), [fr])"
    by blast
  have "try_block rt env fetch req (cors new_response) = (streaming r (cors new_response), [fr])"
    using assms(2,3) by (simp add: tb)
  then show ?thesis
    using assms(4,5) by (simp add: handler_POST [OF post] streaming_def Let_def)
qed

lemma relay_headers: "headers (relay td cs res) = headers res"
  by (subst relay_written_only) simp

lemma encode_greeting_texts:
  "map utf8_encode greeting_texts =
     [''Hi'', [CHR 0xC3, CHR 0xA9, CHR 0xE2, CHR 0x82, CHR 0xAC], [CHR 0xF0, CHR 0x9F, CHR 0x98, CHR 0x80]]"
  by (simp add: greeting_texts_def utf8_encode_def utf8_encode_cp_def continuation_eq drop_bit_eq_div
        char_of_def bit_Suc_0_iff)

lemma relay_invalid_byte:
  "relay new_TextDecoder [''a'', [CHR 0xFF], ''b''] res
     = res\<lparr>written := written res @ [''a'', [CHR 0xEF, CHR 0xBF, CHR 0xBD], ''b'']\<rparr>"
  by (simp add: new_TextDecoder_def decode_stream_def utf8_initial_def utf8_handler_def lead_byte_def
        res_write_def utf8_encode_def utf8_encode_cp_def continuation_eq drop_bit_eq_div
        char_of_def bit_Suc_0_iff)

lemma relay_open_sequence:
  "relay new_TextDecoder [[CHR 0xC3]] res = res\<lparr>written := written res @ [[]]\<rparr>"
  by (simp add: new_TextDecoder_def decode_stream_def utf8_initial_def utf8_handler_def lead_byte_def
        res_write_def utf8_encode_def)

text \<open>
  Claim C1 says that the chunks the upstream body gives are written to the response
  unmodified. Line 131 decodes each chunk as UTF-8 and line 143 writes the decoded
  string, so a byte that is not UTF-8 comes out as the three bytes of U+FFFD: of the
  chunks \<^verbatim>\<open>a\<close>, \<^verbatim>\<open>FF\<close>, \<^verbatim>\<open>b\<close> the second is written as \<^verbatim>\<open>EF BF BD\<close>.
\<close>

theorem invalid_byte_counterexample:
  "fetched (module_exports example_rt configured
       (answers (stream_answer [''a'', [CHR 0xFF], ''b''] EndOfData)) (chat_request ''2+2?'' True))
     = [fireworksRequest example_rt ''fw-key'' (req_body (chat_request ''2+2?'' True))]
   \<and> up_body (stream_answer [''a'', [CHR 0xFF], ''b''] EndOfData)
       = Some ([''a'', [CHR 0xFF], ''b''], EndOfData)
   \<and> written (response (module_exports example_rt configured
       (answers (stream_answer [''a'', [CHR 0xFF], ''b''] EndOfData)) (chat_request ''2+2?'' True)))
     = [''a'', [CHR 0xEF, CHR 0xBF, CHR 0xBD], ''b'']"
proof -
  have "fireworksRequest example_rt ''fw-key'' (req_body (chat_request ''2+2?'' True))
     \<in> set (fetched (module_exports example_rt configured
               (answers (stream_answer [''a'', [CHR 0xFF], ''b''] EndOfData))
               (chat_request ''2+2?'' True)))"
    by (simp add: chat_request_fetched)
  then have "module_exports example_rt configured
       (answers (stream_answer [''a'', [CHR 0xFF], ''b''] EndOfData)) (chat_request ''2+2?'' True) =
    \<lparr>response = res_end (relay new_TextDecoder [''a'', [CHR 0xFF], ''b'']
                   (event_stream (cors new_response))),
     fetched = [fireworksRequest example_rt ''fw-key'' (req_body (chat_request ''2+2?'' True))]\<rparr>"
    by (subst streamed_response [where r = "stream_answer [''a'', [CHR 0xFF], ''b''] EndOfData"
          and cs = "[''a'', [CHR 0xFF], ''b'']" and ending = EndOfData])
      (simp_all add: chat_request_def answers_def stream_answer_def ok_def)
  then show ?thesis
    by (simp add: relay_invalid_byte event_stream_cors res_end_def stream_answer_def
          del: relay.simps)
qed

text \<open>
  Claim C1, amended. For every streaming request that reached the upstream API, when the
  answer is a success with a readable body that gives the chunks \<open>c\<^sub>1, ..., c\<^sub>n\<close> and then
  ends, every chunk being well-formed UTF-8 (the encoding of a string of Unicode scalar
  values) and the stream not starting with a byte order mark, the handler writes exactly
  \<open>c\<^sub>1, ..., c\<^sub>n\<close> to the response, unmodified and in order, and then ends it.
\<close>

theorem text_chunks_relayed:
  assumes "fr \<in> set (fetched (module_exports rt env fetch req))"
    and "truthy (own (req_body req) ''stream'')"
    and "fetch fr = Resolved r" and "ok r"
    and "up_body r = Some (map utf8_encode texts, EndOfData)"
    and "\<forall>t \<in> set texts. \<forall>cp \<in> set t. scalar_value cp"
    and "concat texts = [] \<or> hd (concat texts) \<noteq> 0xFEFF"
  shows "written (response (module_exports rt env fetch req)) = map utf8_encode texts
       \<and> ended (response (module_exports rt env fetch req))
       \<and> jsonBody (response (module_exports rt env fetch req)) = None
       \<and> statusCode (response (module_exports rt env fetch req)) = 200
       \<and> fetched (module_exports rt env fetch req) = [fr]"
proof -
  have "relay new_TextDecoder (map utf8_encode texts) (event_stream (cors new_response))
          = (event_stream (cors new_response))\<lparr>written := 
               written (event_stream (cors new_response)) @ map utf8_encode texts\<rparr>"
    using assms(6,7) by (intro relay_encoded) (simp_all add: new_TextDecoder_def)
  then show ?thesis
    by (simp add: streamed_response [OF assms(1-5)] event_stream_cors res_end_def)
qed

text \<open>Claim C1, amended, at a stream of three chunks of one to four bytes a code point.\<close>

theorem text_chunks_relayed_witness:
  "fireworksRequest example_rt ''fw-key'' (req_body (chat_request ''2+2?'' True))
     \<in> set (fetched (module_exports example_rt configured
               (answers (stream_answer (map utf8_encode greeting_texts) EndOfData))
               (chat_request ''2+2?'' True)))
   \<and> truthy (own (req_body (chat_request ''2+2?'' True)) ''stream'')
   \<and> ok (stream_answer (map utf8_encode greeting_texts) EndOfData)
   \<and> up_body (stream_answer (map utf8_encode greeting_texts) EndOfData)
       = Some ([''Hi'', [CHR 0xC3, CHR 0xA9, CHR 0xE2, CHR 0x82, CHR 0xAC],
                [CHR 0xF0, CHR 0x9F, CHR 0x98, CHR 0x80]], EndOfData)
   \<and> list_all (list_all scalar_value) greeting_texts
   \<and> hd (concat greeting_texts) \<noteq> 0xFEFF
   \<and> written (response (module_exports example_rt configured
               (answers (stream_answer (map utf8_encode greeting_texts) EndOfData))
               (chat_request ''2+2?'' True)))
       = [''Hi'', [CHR 0xC3, CHR 0xA9, CHR 0xE2, CHR 0x82, CHR 0xAC],
          [CHR 0xF0, CHR 0x9F, CHR 0x98, CHR 0x80]]
   \<and> ended (response (module_exports example_rt configured
               (answers (stream_answer (map utf8_encode greeting_texts) EndOfData))
               (chat_request ''2+2?'' True)))"
proof -
  let ?r = "stream_answer (map utf8_encode greeting_texts) EndOfData"
  let ?fr = "fireworksRequest example_rt ''fw-key'' (req_body (chat_request ''2+2?'' True))"
  have h1: "?fr \<in> set (fetched (module_exports example_rt configured (answers ?r)
                           (chat_request ''2+2?'' True)))"
    by (simp add: chat_request_fetched)
  have h2: "truthy (own (req_body (chat_request ''2+2?'' True)) ''stream'')"
    by (simp add: chat_request_def)
  have h3: "answers ?r ?fr = Resolved ?r"
    by (simp add: answers_def)
  have h4: "ok ?r"
    by (simp add: ok_def stream_answer_def)
  have h5: "up_body ?r = Some (map utf8_encode greeting_texts, EndOfData)"
    by (simp add: stream_answer_def)
  have h6: "\<forall>t \<in> set greeting_texts. \<forall>cp \<in> set t. scalar_value cp"
    by (simp add: greeting_texts_def scalar_value_def)
  have h7: "concat greeting_texts = [] \<or> hd (concat greeting_texts) \<noteq> 0xFEFF"
    by (simp add: greeting_texts_def)
  have h8: "list_all (list_all scalar_value) greeting_texts"
    by (simp add: greeting_texts_def scalar_value_def)
  have h9: "hd (concat greeting_texts) \<noteq> 0xFEFF"
    by (simp add: greeting_texts_def)
  show ?thesis
    using h1 h2 h4 h5 h8 h9 text_chunks_relayed [OF h1 h2 h3 h4 h5 h6 h7]
    by (simp add: encode_greeting_texts)
qed

text \<open>
  Claim C4 says that the chunks relayed before a failed read are written as they came,
  followed by the terminal error event. They too go through the decoder: when the only
  chunk received is \<^verbatim>\<open>C3\<close>, the first byte of a two-byte character, the decoder keeps
  it for the next chunk, an empty string is written, and the byte never reaches the
  client.
\<close>

theorem open_sequence_counterexample:
  \<open>fetched (module_exports example_rt configured
       (answers (stream_answer [[CHR 0xC3]] (ReadFails (Rejection ''terminated''))))
       (chat_request ''2+2?'' True))
     = [fireworksRequest example_rt ''fw-key'' (req_body (chat_request ''2+2?'' True))]
   \<and> up_body (stream_answer [[CHR 0xC3]] (ReadFails (Rejection ''terminated'')))
       = Some ([[CHR 0xC3]], ReadFails (Rejection ''terminated''))
   \<and> written (response (module_exports example_rt configured
       (answers (stream_answer [[CHR 0xC3]] (ReadFails (Rejection ''terminated''))))
       (chat_request ''2+2?'' True)))
     = [[], ''data: {"error": "Streaming interrupted"}'' @ [CHR 0x0A, CHR 0x0A]]\<close>
proof -
  let ?r = "stream_answer [[CHR 0xC3]] (ReadFails (Rejection ''terminated''))"
  have "fireworksRequest example_rt ''fw-key'' (req_body (chat_request ''2+2?'' True))
     \<in> set (fetched (module_exports example_rt configured (answers ?r)
               (chat_request ''2+2?'' True)))"
    by (simp add: chat_request_fetched)
  then have "module_exports example_rt configured (answers ?r) (chat_request ''2+2?'' True) =
    \<lparr>response = res_end (res_write streaming_interrupted
                   (relay new_TextDecoder [[CHR 0xC3]] (event_stream (cors new_response)))),
     fetched = [fireworksRequest example_rt ''fw-key'' (req_body (chat_request ''2+2?'' True))]\<rparr>"
    by (subst streamed_response [where r = ?r and cs = "[[CHR 0xC3]]"
          and ending = "ReadFails (Rejection ''terminated'')"])
      (simp_all add: chat_request_def answers_def stream_answer_def ok_def)
  then show ?thesis
    by (simp add: relay_open_sequence event_stream_cors res_end_def res_write_def
          stream_answer_def streaming_interrupted_bytes del: relay.simps)
qed

text \<open>
  Claim C4, amended. For every streaming request that reached the upstream API, when the
  answer is a success and a read of its body fails after the chunks \<open>c\<^sub>1, ..., c\<^sub>k\<close>,
  every chunk being well-formed UTF-8 and the stream not starting with a byte order
  mark, the handler writes exactly \<open>c\<^sub>1, ..., c\<^sub>k\<close> followed by the one event
  \<^verbatim>\<open>data: {"error": "Streaming interrupted"}\<close> and a blank line, then ends the response.
  The upstream API has been called once, and nothing is sent as a JSON body.
\<close>

theorem interrupted_stream:
  assumes "fr \<in> set (fetched (module_exports rt env fetch req))"
    and "truthy (own (req_body req) ''stream'')"
    and "fetch fr = Resolved r" and "ok r"
    and "up_body r = Some (map utf8_encode texts, ReadFails e)"
    and "\<forall>t \<in> set texts. \<forall>cp \<in> set t. scalar_value cp"
    and "concat texts = [] \<or> hd (concat texts) \<noteq> 0xFEFF"
  shows \<open>written (response (module_exports rt env fetch req))
           = map utf8_encode texts
             @ [''data: {"error": "Streaming interrupted"}'' @ [CHR 0x0A, CHR 0x0A]]
       \<and> ended (response (module_exports rt env fetch req))
       \<and> jsonBody (response (module_exports rt env fetch req)) = None
       \<and> statusCode (response (module_exports rt env fetch req)) = 200
       \<and> fetched (module_exports rt env fetch req) = [fr]\<close>
proof -
  have "relay new_TextDecoder (map utf8_encode texts) (event_stream (cors new_response))
          = (event_stream (cors new_response))\<lparr>written := 
               written (event_stream (cors new_response)) @ map utf8_encode texts\<rparr>"
    using assms(6,7) by (intro relay_encoded) (simp_all add: new_TextDecoder_def)
  then show ?thesis
    by (simp add: streamed_response [OF assms(1-5)] event_stream_cors res_end_def res_write_def
          streaming_interrupted_bytes)
qed

text \<open>Claim C4, amended, at a stream whose read fails after three chunks.\<close>

theorem interrupted_stream_witness:
  \<open>fireworksRequest example_rt ''fw-key'' (req_body (chat_request ''2+2?'' True))
     \<in> set (fetched (module_exports example_rt configured
               (answers (stream_answer (map utf8_encode greeting_texts)
                  (ReadFails (Rejection ''terminated''))))
               (chat_request ''2+2?'' True)))
   \<and> truthy (own (req_body (chat_request ''2+2?'' True)) ''stream'')
   \<and> ok (stream_answer (map utf8_encode greeting_texts) (ReadFails (Rejection ''terminated'')))
   \<and> up_body (stream_answer (map utf8_encode greeting_texts) (ReadFails (Rejection ''terminated'')))
       = Some ([''Hi'', [CHR 0xC3, CHR 0xA9, CHR 0xE2, CHR 0x82, CHR 0xAC],
                [CHR 0xF0, CHR 0x9F, CHR 0x98, CHR 0x80]], ReadFails (Rejection ''terminated''))
   \<and> list_all (list_all scalar_value) greeting_texts
   \<and> hd (concat greeting_texts) \<noteq> 0xFEFF
   \<and> written (response (module_exports example_rt configured
               (answers (stream_answer (map utf8_encode greeting_texts)
                  (ReadFails (Rejection ''terminated''))))
               (chat_request ''2+2?'' True)))
       = [''Hi'', [CHR 0xC3, CHR 0xA9, CHR 0xE2, CHR 0x82, CHR 0xAC],
          [CHR 0xF0, CHR 0x9F, CHR 0x98, CHR 0x80],
          ''data: {"error": "Streaming interrupted"}'' @ [CHR 0x0A, CHR 0x0A]]
   \<and> ended (response (module_exports example_rt configured
               (answers (stream_answer (map utf8_encode greeting_texts)
                  (ReadFails (Rejection ''terminated''))))
               (chat_request ''2+2?'' True)))
   \<and> fetched (module_exports example_rt configured
               (answers (stream_answer (map utf8_encode greeting_texts)
                  (ReadFails (Rejection ''terminated''))))
               (chat_request ''2+2?'' True))
       = [fireworksRequest example_rt ''fw-key'' (req_body (chat_request ''2+2?'' True))]\<close>
proof -
  let ?r = "stream_answer (map utf8_encode greeting_texts) (ReadFails (Rejection ''terminated''))"
  let ?fr = "fireworksRequest example_rt ''fw-key'' (req_body (chat_request ''2+2?'' True))"
  have h1: "?fr \<in> set (fetched (module_exports example_rt configured (answers ?r)
                           (chat_request ''2+2?'' True)))"
    by (simp add: chat_request_fetched)
  have h2: "truthy (own (req_body (chat_request ''2+2?'' True)) ''stream'')"
    by (simp add: chat_request_def)
  have h3: "answers ?r ?fr = Resolved ?r"
    by (simp add: answers_def)
  have h4: "ok ?r"
    by (simp add: ok_def stream_answer_def)
  have h5: "up_body ?r = Some (map utf8_encode greeting_texts, ReadFails (Rejection ''terminated''))"
    by (simp add: stream_answer_def)
  have h6: "\<forall>t \<in> set greeting_texts. \<forall>cp \<in> set t. scalar_value cp"
    by (simp add: greeting_texts_def scalar_value_def)
  have h7: "concat greeting_texts = [] \<or> hd (concat greeting_texts) \<noteq> 0xFEFF"
    by (simp add: greeting_texts_def)
  have h8: "list_all (list_all scalar_value) greeting_texts"
    by (simp add: greeting_texts_def scalar_value_def)
  have h9: "hd (concat greeting_texts) \<noteq> 0xFEFF"
    by (simp add: greeting_texts_def)
  show ?thesis
    using h1 h2 h4 h5 h8 h9 interrupted_stream [OF h1 h2 h3 h4 h5 h6 h7]
    by (simp add: encode_greeting_texts)
qed

section \<open>The CORS headers of a streamed response\<close>

text \<open>
  Claim C7 says that every response carries the header
  \<^verbatim>\<open>Access-Control-Allow-Headers: Content-Type, Authorization\<close>. Line 5 sets it for every
  request, but line 110 sets it again for a streamed response, to \<^verbatim>\<open>Content-Type\<close>
  alone: a streamed response does not allow \<^verbatim>\<open>Authorization\<close>.
\<close>

theorem streamed_response_allows_content_type_only:
  "map_of (headers (response (module_exports example_rt configured
       (answers (stream_answer [sse_frame ''4'', sse_frame ''[DONE]''] EndOfData))
       (chat_request ''2+2?'' True))))
     ''Access-Control-Allow-Headers'' = Some ''Content-Type''"
proof -
  let ?r = "stream_answer [sse_frame ''4'', sse_frame ''[DONE]''] EndOfData"
  have "fireworksRequest example_rt ''fw-key'' (req_body (chat_request ''2+2?'' True))
     \<in> set (fetched (module_exports example_rt configured (answers ?r)
               (chat_request ''2+2?'' True)))"
    by (simp add: chat_request_fetched)
  then have "module_exports example_rt configured (answers ?r) (chat_request ''2+2?'' True) =
    \<lparr>response = res_end (relay new_TextDecoder [sse_frame ''4'', sse_frame ''[DONE]'']
                   (event_stream (cors new_response))),
     fetched = [fireworksRequest example_rt ''fw-key'' (req_body (chat_request ''2+2?'' True))]\<rparr>"
    by (subst streamed_response [where r = ?r and cs = "[sse_frame ''4'', sse_frame ''[DONE]'']"
          and ending = EndOfData])
      (simp_all add: chat_request_def answers_def stream_answer_def ok_def)
  then show ?thesis
    by (simp add: relay_headers event_stream_cors res_end_def del: relay.simps)
qed


end
